theory Spec2Isabelle
  imports Complex_Main
begin

section \<open>Time steps and pollutant metadata\<close>

text \<open>
  The side panel of the ModuleAir source offers four aggregation steps. The pollutant
  metadata table (\<open>constants/pollutants\<close>) is imported by the component; it is a
  parameter of everything below, an association list in the key order of the object.
\<close>

definition MODULEAIR_TIMESTEP_OPTIONS :: "string list" where
  "MODULEAIR_TIMESTEP_OPTIONS = [''instantane'', ''quartHeure'', ''heure'', ''jour'']"

record PollutantConfig =
  pc_name :: string
  pc_unit :: string
  supportedTimeSteps :: "string list option"

type_synonym PollutantTable = "(string \<times> PollutantConfig) list"

text \<open>
  The callback of the \<open>reduce\<close> in \<open>getSupportedTimeStepsForPollutants\<close>: a pollutant
  narrows the accumulator only when it has a configuration with a non-empty list of steps.
\<close>

definition narrowSteps :: "PollutantTable \<Rightarrow> string list \<Rightarrow> string \<Rightarrow> string list" where
  "narrowSteps tbl acc code =
     (case map_of tbl code of
        None \<Rightarrow> acc
      | Some pollutantConfig \<Rightarrow>
          (case supportedTimeSteps pollutantConfig of
             None \<Rightarrow> acc
           | Some steps \<Rightarrow>
               if length steps > 0 then filter (\<lambda>timeStep. timeStep \<in> set steps) acc
               else acc))"

definition getSupportedTimeStepsForPollutants :: "PollutantTable \<Rightarrow> string list \<Rightarrow> string list" where
  "getSupportedTimeStepsForPollutants tbl pollutantCodes =
     (if length pollutantCodes = 0 then MODULEAIR_TIMESTEP_OPTIONS
      else foldl (narrowSteps tbl) MODULEAIR_TIMESTEP_OPTIONS pollutantCodes)"

definition getInitialTimeStepForPollutants :: "PollutantTable \<Rightarrow> string list \<Rightarrow> string \<Rightarrow> string" where
  "getInitialTimeStepForPollutants tbl pollutantCodes fallback =
     (let supported = getSupportedTimeStepsForPollutants tbl pollutantCodes in
      if length supported = 0 then fallback
      else if fallback \<in> set supported then fallback
      else hd supported)"

section \<open>Time ranges and the range/step policy\<close>

text \<open>
  A \<open>TimeRange\<close> object carries a tag and two optional payloads. Calendar dates are the
  strings \<open>YYYY-MM-DD\<close> of a date input; a well-formed date string is represented by its
  day number (days since the epoch, UTC), so that \<open>new Date(s).getTime()\<close> is the day
  number times the milliseconds of a day and \<open>toISOString().split("T")[0]\<close> is the
  floor division back. The clock (\<open>new Date()\<close>) is the parameter \<open>now\<close>, in
  milliseconds.
\<close>

datatype RangeType = PresetT | CustomT

datatype Preset = P3h | P24h | P7d | P30d

record CustomDates =
  startDate :: int
  endDate :: int

record TimeRange =
  rtype :: RangeType
  preset :: "Preset option"
  custom :: "CustomDates option"

definition msPerDay :: int where
  "msPerDay = 24 * 60 * 60 * 1000"

definition getTime :: "int \<Rightarrow> int" where
  "getTime day = day * msPerDay"

definition isoDate :: "int \<Rightarrow> int" where
  "isoDate ms = ms div msPerDay"

definition ceilDays :: "int \<Rightarrow> int" where
  "ceilDays ms = - ((- ms) div msPerDay)"

fun presetDays :: "Preset \<Rightarrow> rat" where
  "presetDays P3h = 1 / 8"
| "presetDays P24h = 1"
| "presetDays P7d = 7"
| "presetDays P30d = 30"

fun presetName :: "Preset \<Rightarrow> string" where
  "presetName P3h = ''3h''"
| "presetName P24h = ''24h''"
| "presetName P7d = ''7d''"
| "presetName P30d = ''30d''"

definition presetRange :: "Preset \<Rightarrow> TimeRange" where
  "presetRange p = \<lparr>rtype = PresetT, preset = Some p, custom = None\<rparr>"

definition customRange :: "int \<Rightarrow> int \<Rightarrow> TimeRange" where
  "customRange s e = \<lparr>rtype = CustomT, preset = None, custom = Some \<lparr>startDate = s, endDate = e\<rparr>\<rparr>"

text \<open>
  Modelled from the spec: \<open>getMaxHistoryDays\<close> is imported from the time-range
  selector, which is not among the sources. The spec gives it as a static lookup of the
  maximum retrievable history of a step, in days, null when unbounded. It is the
  parameter \<open>maxHistory\<close>, a whole number of days or \<open>None\<close>. The source tests it
  with \<open>!maxDays\<close>, so zero counts as unbounded too.
\<close>

type_synonym MaxHistory = "string \<Rightarrow> nat option"

definition adjustTimeRangeIfNeeded ::
  "MaxHistory \<Rightarrow> int \<Rightarrow> TimeRange \<Rightarrow> string \<Rightarrow> TimeRange \<times> bool" where
  "adjustTimeRangeIfNeeded maxHistory now timeRange timeStep =
     (case maxHistory timeStep of
        None \<Rightarrow> (timeRange, False)
      | Some maxDays \<Rightarrow>
          if maxDays = 0 then (timeRange, False)
          else
            (case (rtype timeRange, preset timeRange, custom timeRange) of
               (PresetT, Some p, _) \<Rightarrow>
                 if presetDays p > of_nat maxDays
                 then (customRange (isoDate (now - int maxDays * 24 * 60 * 60 * 1000)) (isoDate now), True)
                 else (timeRange, False)
             | (CustomT, _, Some c) \<Rightarrow>
                 (let daysDiff = ceilDays (getTime (endDate c) - getTime (startDate c)) in
                  if daysDiff > int maxDays
                  then (customRange (isoDate (getTime (endDate c) - int maxDays * 24 * 60 * 60 * 1000))
                          (endDate c), True)
                  else (timeRange, False))
             | _ \<Rightarrow> (timeRange, False)))"

text \<open>
  The duration in days that \<open>isTimeStepValidForCurrentRange\<close> computes for a range;
  \<open>None\<close> for an object with neither payload, where the source returns true.
\<close>

definition currentDays :: "TimeRange \<Rightarrow> rat option" where
  "currentDays timeRange =
     (case (rtype timeRange, preset timeRange, custom timeRange) of
        (PresetT, Some p, _) \<Rightarrow> Some (presetDays p)
      | (CustomT, _, Some c) \<Rightarrow>
          Some (of_int (ceilDays (getTime (endDate c) - getTime (startDate c))))
      | _ \<Rightarrow> None)"

definition isTimeStepValidForRange :: "MaxHistory \<Rightarrow> TimeRange \<Rightarrow> string \<Rightarrow> bool" where
  "isTimeStepValidForRange maxHistory timeRange timeStep =
     (case maxHistory timeStep of
        None \<Rightarrow> True
      | Some maxDays \<Rightarrow>
          if maxDays = 0 then True
          else (case currentDays timeRange of
                  None \<Rightarrow> True
                | Some days \<Rightarrow> days \<le> of_nat maxDays))"

section \<open>Values of the fetched series\<close>

text \<open>
  A JavaScript number is a rational or \<open>NaN\<close> (infinities and rounding are outside
  the model); the \<open>value\<close> of a sample may also be \<open>null\<close>, which is \<open>None\<close>.
  Responses of the remote interface are JSON values.
\<close>

datatype jsnumber = Num rat | NaN

datatype json =
    JNull
  | JBool bool
  | JNum rat
  | JStr string
  | JArr "json list"
  | JObj "(string \<times> json) list"

datatype js_error = JsError string

record HistoricalDataPoint =
  hp_timestamp :: "json option"
  hp_value :: "jsnumber option"
  hp_unit :: string

type_synonym HistoricalData = "string \<rightharpoonup> HistoricalDataPoint list"

section \<open>The side panel: props, state, refs\<close>

text \<open>
  The type declarations of the component (station, chart controls, panel state, sample)
  are not among the sources; the records hold the fields the component reads and writes.
  Of a station variable only the \<open>en_service\<close> flag is read.
\<close>

record StationInfo =
  station_id :: string
  station_name :: string
  variables :: "(string \<times> bool) list"

record ChartControls =
  selectedPollutants :: "string list"
  timeRange :: TimeRange
  timeStep :: string

text \<open>
  \<open>infoMessage\<close> is the notice of an automatic adjustment; its text only varies in
  the number of days it mentions, which is what the field holds here.
\<close>

record SidePanelState =
  isOpen :: bool
  selectedStation :: "StationInfo option"
  chartControls :: ChartControls
  historicalData :: HistoricalData
  loading :: bool
  error :: "string option"
  infoMessage :: "nat option"

datatype FetchKind = FullLoad | Incremental

text \<open>
  A dispatched fetch that has not settled yet. A full load (\<open>loadHistoricalData\<close>)
  awaits one request per pollutant in turn and updates the state once, after the last;
  an incremental fetch (pollutant toggle) is for one pollutant. The record is the
  request key: station identity, pollutants, range descriptor, step.
\<close>

record FetchRequest =
  fr_kind :: FetchKind
  fr_sensorId :: string
  fr_pollutants :: "string list"
  fr_timeRange :: TimeRange
  fr_timeStep :: string

text \<open>A callback handed to \<open>requestAnimationFrame\<close> by the station effect.\<close>

record FrameCallback =
  fc_station :: StationInfo
  fc_pollutants :: "string list"
  fc_timeRange :: TimeRange
  fc_timeStep :: string
  fc_loadKey :: string

text \<open>
  One instance of the component: the two props the effect depends on, the state object,
  the \<open>isLoading\<close> flag, the three refs, and what the component has handed to the
  environment and not yet got back: animation-frame callbacks, fetches in flight, and
  rejections no handler took. The size of the panel and the visibility of the pollutant
  list play no part in the operations below and are left out. \<open>phase\<close> tells whether
  the instance has rendered yet and whether a render of it has thrown.
\<close>

datatype Phase = BeforeMount | Live | Failed

record Panel =
  phase :: Phase
  p_isOpen :: bool
  p_selectedStation :: "StationInfo option"
  state :: SidePanelState
  isLoading :: bool
  loadingRef :: bool
  initialLoadDoneRef :: "string option"
  stationIdRef :: "string option"
  frames :: "FrameCallback list"
  inFlight :: "FetchRequest list"
  unhandled :: "js_error list"

record Env =
  pollutants :: PollutantTable
  getMaxHistoryDays :: MaxHistory
  initialPollutant :: string

text \<open>The message of the \<open>catch\<close> in \<open>loadHistoricalData\<close>, in UTF-8.\<close>

definition LOAD_ERROR_MESSAGE :: string where
  "LOAD_ERROR_MESSAGE =
     ''Erreur lors du chargement des donn'' @ [CHR 0xC3, CHR 0xA9] @ ''es historiques''"

definition initialTimeStep :: "Env \<Rightarrow> string" where
  "initialTimeStep env =
     getInitialTimeStepForPollutants (pollutants env)
       (if initialPollutant env \<noteq> [] then [initialPollutant env] else []) ''heure''"

definition initialState :: "Env \<Rightarrow> SidePanelState" where
  "initialState env =
     \<lparr>isOpen = False, selectedStation = None,
      chartControls = \<lparr>selectedPollutants = [initialPollutant env],
                       timeRange = presetRange P24h,
                       timeStep = initialTimeStep env\<rparr>,
      historicalData = Map.empty, loading = False, error = None, infoMessage = None\<rparr>"

definition initialPanel :: "Env \<Rightarrow> Panel" where
  "initialPanel env =
     \<lparr>phase = BeforeMount, p_isOpen = False, p_selectedStation = None, state = initialState env,
      isLoading = False, loadingRef = False, initialLoadDoneRef = None, stationIdRef = None,
      frames = [], inFlight = [], unhandled = []\<rparr>"

definition isPollutantAvailable :: "StationInfo option \<Rightarrow> string \<Rightarrow> bool" where
  "isPollutantAvailable station pollutantCode =
     (case station of
        None \<Rightarrow> False
      | Some st \<Rightarrow> list_ex (\<lambda>(code, en_service). code = pollutantCode \<and> en_service) (variables st))"

definition getAvailablePollutants :: "Env \<Rightarrow> StationInfo option \<Rightarrow> string list" where
  "getAvailablePollutants env station =
     (case station of
        None \<Rightarrow> []
      | Some st \<Rightarrow>
          map fst (filter (\<lambda>(pollutantCode, cfg). isPollutantAvailable station pollutantCode)
                     (pollutants env)))"

fun join :: "string \<Rightarrow> string list \<Rightarrow> string" where
  "join sep [] = []"
| "join sep [x] = x"
| "join sep (x # y # ys) = x @ sep @ join sep (y # ys)"

definition loadKeyOf :: "string \<Rightarrow> string list \<Rightarrow> TimeRange \<Rightarrow> string \<Rightarrow> string" where
  "loadKeyOf sid ps tr ts =
     sid @ ''-'' @ join '','' ps @ ''-'' @
     (case (rtype tr, preset tr) of
        (PresetT, Some p) \<Rightarrow> presetName p
      | (PresetT, None) \<Rightarrow> ''undefined''
      | (CustomT, _) \<Rightarrow> ''custom'') @ ''-'' @ ts"

section \<open>Loading the history\<close>

text \<open>
  The loop of \<open>loadHistoricalData\<close>: the answers of the fetch collaborator are given
  per pollutant (\<open>Inl\<close> a rejection); the first rejection leaves the loop.
\<close>

fun fetchAll ::
  "(string \<Rightarrow> js_error + HistoricalDataPoint list) \<Rightarrow> string list \<Rightarrow> HistoricalData
     \<Rightarrow> js_error + HistoricalData" where
  "fetchAll outcome [] newHistoricalData = Inr newHistoricalData"
| "fetchAll outcome (pollutant # rest) newHistoricalData =
     (case outcome pollutant of
        Inl e \<Rightarrow> Inl e
      | Inr data \<Rightarrow> fetchAll outcome rest (newHistoricalData(pollutant \<mapsto> data)))"

text \<open>What \<open>loadHistoricalData\<close> does after the loop, and in its \<open>catch\<close>.\<close>

fun completeLoad :: "Panel \<Rightarrow> js_error + HistoricalData \<Rightarrow> Panel" where
  "completeLoad c (Inr newHistoricalData) =
     c\<lparr>state := (state c)\<lparr>historicalData := newHistoricalData, loading := False\<rparr>,
       isLoading := False, loadingRef := False\<rparr>"
| "completeLoad c (Inl e) =
     c\<lparr>state := (state c)\<lparr>loading := False, error := Some LOAD_ERROR_MESSAGE\<rparr>,
       isLoading := False, loadingRef := False\<rparr>"

text \<open>
  \<open>loadHistoricalData\<close> up to its first \<open>await\<close>: with no pollutant there is none and
  the call completes at once, otherwise the load is in flight. \<open>getDateRange\<close> turns the
  range into the two timestamps handed to the service; on well-formed dates it does not
  throw, and the request keeps the range itself.
\<close>

definition loadHistoricalData ::
  "Panel \<Rightarrow> StationInfo \<Rightarrow> string list \<Rightarrow> TimeRange \<Rightarrow> string \<Rightarrow> Panel" where
  "loadHistoricalData c station ps tr ts =
     (let c1 = c\<lparr>state := (state c)\<lparr>loading := True, error := None\<rparr>\<rparr> in
      if ps = [] then completeLoad c1 (Inr Map.empty)
      else c1\<lparr>inFlight := inFlight c1 @
                 [\<lparr>fr_kind = FullLoad, fr_sensorId = station_id station, fr_pollutants = ps,
                   fr_timeRange = tr, fr_timeStep = ts\<rparr>]\<rparr>)"

section \<open>The station effect\<close>

text \<open>
  The body of the effect on \<open>isOpen\<close> and \<open>selectedStation\<close>, run with the props
  already stored in the panel. A new station resets the controls and the store and,
  unless \<open>loadingRef\<close> is set, schedules the initial load for the next animation frame.
\<close>

definition stationEffect :: "Env \<Rightarrow> Panel \<Rightarrow> Panel" where
  "stationEffect env c =
     (if \<not> p_isOpen c then
        c\<lparr>stationIdRef := None,
          state := (state c)\<lparr>isOpen := False, selectedStation := None,
                              historicalData := Map.empty, loading := False, error := None\<rparr>,
          isLoading := False, loadingRef := False, initialLoadDoneRef := None\<rparr>
      else
        (case p_selectedStation c of
           None \<Rightarrow> c
         | Some station \<Rightarrow>
             if Some (station_id station) \<noteq> stationIdRef c then
               (let availablePollutants = getAvailablePollutants env (Some station);
                    selected =
                      (if initialPollutant env \<in> set availablePollutants then [initialPollutant env]
                       else if length availablePollutants > 0 then [hd availablePollutants]
                       else []);
                    nextTimeStep =
                      getInitialTimeStepForPollutants (pollutants env) selected
                        (timeStep (chartControls (state c)));
                    initialTimeRange = presetRange P24h;
                    c1 = c\<lparr>stationIdRef := Some (station_id station),
                           state := (state c)\<lparr>isOpen := True, selectedStation := Some station,
                                     chartControls := (chartControls (state c))
                                        \<lparr>selectedPollutants := selected,
                                         timeStep := nextTimeStep,
                                         timeRange := initialTimeRange\<rparr>,
                                     historicalData := Map.empty, loading := False, error := None\<rparr>,
                           initialLoadDoneRef := None\<rparr>;
                    loadKey = loadKeyOf (station_id station) selected initialTimeRange nextTimeStep
                in
                if length selected > 0 \<and> \<not> loadingRef c1 \<and> initialLoadDoneRef c1 \<noteq> Some loadKey
                then c1\<lparr>frames := frames c1 @
                          [\<lparr>fc_station = station, fc_pollutants = selected,
                            fc_timeRange = initialTimeRange, fc_timeStep = nextTimeStep,
                            fc_loadKey = loadKey\<rparr>]\<rparr>
                else c1)
             else
               c\<lparr>state := (state c)\<lparr>isOpen := True, selectedStation := Some station\<rparr>\<rparr>))"

text \<open>
  The component returns \<open>null\<close> when it is closed or has no station, and it does so
  before its last hook (the memo of the statistics). A render therefore calls one hook
  more when the panel is shown than when it is not, and React throws when the number of
  hooks of a render differs from that of the previous render of the instance.
\<close>

definition passesEarlyReturn :: "bool \<Rightarrow> StationInfo option \<Rightarrow> bool" where
  "passesEarlyReturn opened station = (opened \<and> station \<noteq> None)"

text \<open>
  The parent renders the instance with new props. The first render is the mount, and the
  effect follows it. A later render that is shown where the previous one was not, or the
  reverse, throws: the instance fails and its effect does not run. Otherwise the effect
  runs with the new props.
\<close>

definition propsChanged :: "Env \<Rightarrow> Panel \<Rightarrow> bool \<Rightarrow> StationInfo option \<Rightarrow> Panel" where
  "propsChanged env c opened station =
     (case phase c of
        Failed \<Rightarrow> c
      | BeforeMount \<Rightarrow>
          stationEffect env (c\<lparr>phase := Live, p_isOpen := opened, p_selectedStation := station\<rparr>)
      | Live \<Rightarrow>
          if passesEarlyReturn opened station = passesEarlyReturn (p_isOpen c) (p_selectedStation c)
          then stationEffect env (c\<lparr>p_isOpen := opened, p_selectedStation := station\<rparr>)
          else c\<lparr>phase := Failed\<rparr>)"

text \<open>The oldest scheduled animation-frame callback runs.\<close>

definition animationFrame :: "Panel \<Rightarrow> Panel" where
  "animationFrame c =
     (case frames c of
        [] \<Rightarrow> c
      | f # fs \<Rightarrow>
          (let c1 = c\<lparr>frames := fs\<rparr> in
           if \<not> loadingRef c1 \<and> initialLoadDoneRef c1 \<noteq> Some (fc_loadKey f) then
             loadHistoricalData
               (c1\<lparr>loadingRef := True, isLoading := True, initialLoadDoneRef := Some (fc_loadKey f)\<rparr>)
               (fc_station f) (fc_pollutants f) (fc_timeRange f) (fc_timeStep f)
           else c1))"

section \<open>The handlers of the controls\<close>

definition handlePollutantToggle :: "Panel \<Rightarrow> string \<Rightarrow> Panel" where
  "handlePollutantToggle c pollutant =
     (let prev = chartControls (state c);
          newSelectedPollutants =
            (if pollutant \<in> set (selectedPollutants prev)
             then filter (\<lambda>p. p \<noteq> pollutant) (selectedPollutants prev)
             else selectedPollutants prev @ [pollutant]);
          c1 = c\<lparr>state := (state c)\<lparr>chartControls :=
                   prev\<lparr>selectedPollutants := newSelectedPollutants\<rparr>\<rparr>\<rparr>
      in
      case p_selectedStation c of
        None \<Rightarrow> c1
      | Some station \<Rightarrow>
          if historicalData (state c) pollutant = None then
            c1\<lparr>inFlight := inFlight c1 @
                 [\<lparr>fr_kind = Incremental, fr_sensorId = station_id station,
                   fr_pollutants = [pollutant],
                   fr_timeRange = timeRange (chartControls (state c)),
                   fr_timeStep = timeStep (chartControls (state c))\<rparr>]\<rparr>
          else c1)"

definition adjustNotice :: "MaxHistory \<Rightarrow> bool \<Rightarrow> string \<Rightarrow> nat option" where
  "adjustNotice maxHistory wasAdjusted ts =
     (if wasAdjusted then
        (case maxHistory ts of
           None \<Rightarrow> None
         | Some maxDays \<Rightarrow> if maxDays = 0 then None else Some maxDays)
      else None)"

definition handleTimeRangeChange :: "Env \<Rightarrow> Panel \<Rightarrow> TimeRange \<Rightarrow> int \<Rightarrow> Panel" where
  "handleTimeRangeChange env c tr now =
     (let prev = chartControls (state c);
          (validatedTimeRange, wasAdjusted) =
             adjustTimeRangeIfNeeded (getMaxHistoryDays env) now tr (timeStep prev);
          c1 = c\<lparr>state := (state c)
                 \<lparr>chartControls := prev\<lparr>timeRange := validatedTimeRange\<rparr>,
                  infoMessage := adjustNotice (getMaxHistoryDays env) wasAdjusted (timeStep prev)\<rparr>\<rparr>
      in
      case p_selectedStation c of
        None \<Rightarrow> c1
      | Some station \<Rightarrow>
          loadHistoricalData c1 station (selectedPollutants prev) validatedTimeRange (timeStep prev))"

definition handleTimeStepChange :: "Env \<Rightarrow> Panel \<Rightarrow> string \<Rightarrow> int \<Rightarrow> Panel" where
  "handleTimeStepChange env c ts now =
     (let prev = chartControls (state c) in
      if ts \<notin> set (getSupportedTimeStepsForPollutants (pollutants env) (selectedPollutants prev))
      then c
      else
        (let (adjustedTimeRange, wasAdjusted) =
               adjustTimeRangeIfNeeded (getMaxHistoryDays env) now (timeRange prev) ts;
             c1 = c\<lparr>state := (state c)
                    \<lparr>chartControls := prev\<lparr>timeStep := ts, timeRange := adjustedTimeRange\<rparr>,
                     infoMessage := adjustNotice (getMaxHistoryDays env) wasAdjusted ts\<rparr>\<rparr>
         in
         case p_selectedStation c of
           None \<Rightarrow> c1
         | Some station \<Rightarrow>
             loadHistoricalData c1 station (selectedPollutants prev) adjustedTimeRange ts))"

text \<open>
  The controls are rendered, and the handlers can be reached by the user, only when the
  instance is mounted, open on a station, and shows neither the spinner nor the error box.
\<close>

definition controlsVisible :: "Panel \<Rightarrow> bool" where
  "controlsVisible c =
     (phase c = Live \<and> p_isOpen c \<and> p_selectedStation c \<noteq> None
      \<and> \<not> loading (state c) \<and> error (state c) = None)"

section \<open>Settlement of a fetch\<close>

text \<open>
  The \<open>i\<close>-th fetch in flight settles; \<open>outcome\<close> gives what the fetch collaborator
  answered for each pollutant. A full load runs its loop and updates the state; an
  incremental fetch merges its series with \<open>then\<close>, and has no handler for a rejection.
\<close>

definition settleFetch ::
  "Panel \<Rightarrow> nat \<Rightarrow> (string \<Rightarrow> js_error + HistoricalDataPoint list) \<Rightarrow> Panel" where
  "settleFetch c i outcome =
     (if i < length (inFlight c) then
        (let r = inFlight c ! i;
             c1 = c\<lparr>inFlight := take i (inFlight c) @ drop (Suc i) (inFlight c)\<rparr>
         in
         case fr_kind r of
           FullLoad \<Rightarrow> completeLoad c1 (fetchAll outcome (fr_pollutants r) Map.empty)
         | Incremental \<Rightarrow>
             (case fr_pollutants r of
                [] \<Rightarrow> c1
              | pollutant # _ \<Rightarrow>
                  (case outcome pollutant of
                     Inr data \<Rightarrow>
                       c1\<lparr>state := (state c1)\<lparr>historicalData :=
                              (historicalData (state c1))(pollutant \<mapsto> data)\<rparr>\<rparr>
                   | Inl e \<Rightarrow> c1\<lparr>unhandled := unhandled c1 @ [e]\<rparr>)))
      else c)"

section \<open>Events\<close>

datatype Event =
    PropsChanged bool "StationInfo option"
  | AnimationFrame
  | FetchSettled nat "string \<Rightarrow> js_error + HistoricalDataPoint list"
  | PollutantToggle string
  | TimeRangeChange TimeRange int
  | TimeStepChange string int
  | InfoTimeout

fun dispatch :: "Env \<Rightarrow> Panel \<Rightarrow> Event \<Rightarrow> Panel" where
  "dispatch env c (PropsChanged opened station) = propsChanged env c opened station"
| "dispatch env c AnimationFrame = animationFrame c"
| "dispatch env c (FetchSettled i outcome) = settleFetch c i outcome"
| "dispatch env c (PollutantToggle pollutant) = handlePollutantToggle c pollutant"
| "dispatch env c (TimeRangeChange tr now) = handleTimeRangeChange env c tr now"
| "dispatch env c (TimeStepChange ts now) = handleTimeStepChange env c ts now"
| "dispatch env c InfoTimeout = c\<lparr>state := (state c)\<lparr>infoMessage := None\<rparr>\<rparr>"

text \<open>
  An instance whose render has thrown is unmounted: nothing reaches it any more, and a
  state update from a fetch that settles later has no effect.
\<close>

definition step :: "Env \<Rightarrow> Panel \<Rightarrow> Event \<Rightarrow> Panel" where
  "step env c e = (if phase c = Failed then c else dispatch env c e)"

definition run :: "Env \<Rightarrow> Panel \<Rightarrow> Event list \<Rightarrow> Panel" where
  "run env c events = foldl (step env) c events"

section \<open>Statistics\<close>

record Stats =
  st_avg :: rat
  st_max :: rat
  st_min :: rat
  st_unit :: string

fun isNumeric :: "jsnumber option \<Rightarrow> bool" where
  "isNumeric None = False"
| "isNumeric (Some NaN) = False"
| "isNumeric (Some (Num r)) = True"

fun numberOf :: "jsnumber option \<Rightarrow> rat" where
  "numberOf (Some (Num r)) = r"
| "numberOf _ = 0"

definition mathMax :: "rat list \<Rightarrow> rat" where
  "mathMax vs = foldl max (hd vs) (tl vs)"

definition mathMin :: "rat list \<Rightarrow> rat" where
  "mathMin vs = foldl min (hd vs) (tl vs)"

definition DEFAULT_UNIT :: string where
  "DEFAULT_UNIT = [CHR 0xC2, CHR 0xB5] @ ''g/m'' @ [CHR 0xC2, CHR 0xB3]"

definition statsUnit :: "Env \<Rightarrow> string \<Rightarrow> HistoricalDataPoint list \<Rightarrow> string" where
  "statsUnit env selectedPollutant data =
     (if hp_unit (hd data) \<noteq> [] then hp_unit (hd data)
      else (case map_of (pollutants env) selectedPollutant of
              None \<Rightarrow> DEFAULT_UNIT
            | Some cfg \<Rightarrow> if pc_unit cfg \<noteq> [] then pc_unit cfg else DEFAULT_UNIT))"

definition stats :: "Env \<Rightarrow> SidePanelState \<Rightarrow> Stats option" where
  "stats env s =
     (case selectedPollutants (chartControls s) of
        [] \<Rightarrow> None
      | selectedPollutant # _ \<Rightarrow>
          if selectedPollutant = [] then None
          else
            (case historicalData s selectedPollutant of
               None \<Rightarrow> None
             | Some data \<Rightarrow>
                 if length data = 0 then None
                 else
                   (let vals = map numberOf (filter isNumeric (map hp_value data)) in
                    if length vals = 0 then None
                    else
                      (let sum = foldl (+) 0 vals in
                       Some \<lparr>st_avg = sum / of_nat (length vals),
                             st_max = mathMax vals,
                             st_min = mathMin vals,
                             st_unit = statsUnit env selectedPollutant data\<rparr>))))"

section \<open>The ModuleAir service: historical data\<close>

text \<open>
  \<open>fetchHistoricalData\<close> builds a request from its parameters and the clock and maps
  the answer. The request only reaches the remote side, so the model takes the outcome
  of \<open>makeRequest\<close> as a parameter: \<open>Inl\<close> when it throws, \<open>Inr\<close> the parsed JSON
  otherwise. \<open>parseFloat\<close> is the built-in of the language and a parameter too.
  Strings are ASCII; a property read looks at the properties of a parsed JSON object.
\<close>

record ModuleAirSensorConfig =
  sensorId :: string
  token :: string
  campagne :: string

record HistoryParams =
  q_sensorId :: string
  q_pollutant :: string
  q_timeStep :: string
  q_startDate :: string
  q_endDate :: string

record Service =
  sensors :: "ModuleAirSensorConfig list"
  sv_pollutants :: PollutantTable
  parseFloat :: "json \<Rightarrow> jsnumber"

definition upperChar :: "char \<Rightarrow> char" where
  "upperChar c =
     (let n = (of_char c :: nat) in if 97 \<le> n \<and> n \<le> 122 then char_of (n - 32) else c)"

definition lowerChar :: "char \<Rightarrow> char" where
  "lowerChar c =
     (let n = (of_char c :: nat) in if 65 \<le> n \<and> n \<le> 90 then char_of (n + 32) else c)"

definition toUpperCase :: "string \<Rightarrow> string" where
  "toUpperCase s = map upperChar s"

definition toLowerCase :: "string \<Rightarrow> string" where
  "toLowerCase s = map lowerChar s"

text \<open>\<open>s.replace(pat, rep)\<close> with a string pattern: the first occurrence only.\<close>

fun replaceFirst :: "string \<Rightarrow> string \<Rightarrow> string \<Rightarrow> string" where
  "replaceFirst pat rep [] = (if pat = [] then rep else [])"
| "replaceFirst pat rep (c # cs) =
     (if take (length pat) (c # cs) = pat then rep @ drop (length pat) (c # cs)
      else c # replaceFirst pat rep cs)"

definition TypeError :: js_error where
  "TypeError = JsError ''TypeError''"

fun getProp :: "json \<Rightarrow> string \<Rightarrow> json option" where
  "getProp (JObj kvs) k = map_of kvs k"
| "getProp _ k = None"

fun nullish :: "json option \<Rightarrow> bool" where
  "nullish None = True"
| "nullish (Some JNull) = True"
| "nullish (Some _) = False"

fun truthy :: "json option \<Rightarrow> bool" where
  "truthy None = False"
| "truthy (Some JNull) = False"
| "truthy (Some (JBool b)) = b"
| "truthy (Some (JNum r)) = (r \<noteq> 0)"
| "truthy (Some (JStr s)) = (s \<noteq> [])"
| "truthy (Some _) = True"

definition orElse :: "json option \<Rightarrow> json option \<Rightarrow> json option" where
  "orElse a b = (if truthy a then a else b)"

text \<open>The keys tried for the reading, in the order of the \<open>??\<close> chain.\<close>

definition readingKeys :: "string \<Rightarrow> string list" where
  "readingKeys pollutant =
     [toUpperCase pollutant,
      pollutant,
      toLowerCase pollutant,
      toUpperCase pollutant,
      replaceFirst ''pm'' ''PM'' pollutant,
      replaceFirst ''25'' ''2.5'' (replaceFirst ''pm'' ''PM'' pollutant),
      replaceFirst ''1'' ''1.0'' (replaceFirst ''pm'' ''PM'' pollutant),
      replaceFirst ''temp'' ''TEMP'' pollutant,
      replaceFirst ''hum'' ''HUM'' pollutant]"

fun coalesce :: "(string \<Rightarrow> json option) \<Rightarrow> string list \<Rightarrow> json option" where
  "coalesce look [] = None"
| "coalesce look [k] = look k"
| "coalesce look (k # k' # ks) = (if nullish (look k) then coalesce look (k' # ks) else look k)"

definition rawReading :: "string \<Rightarrow> json \<Rightarrow> json option" where
  "rawReading pollutant point = coalesce (getProp point) (readingKeys pollutant)"

definition readingValue :: "(json \<Rightarrow> jsnumber) \<Rightarrow> json option \<Rightarrow> jsnumber" where
  "readingValue pf val =
     (case val of
        None \<Rightarrow> Num 0
      | Some v \<Rightarrow> if v \<noteq> JNull \<and> v \<noteq> JStr ''-1'' then pf v else Num 0)"

text \<open>
  The callback of \<open>response.map\<close>: the object it returns for a point, and the
  \<open>TypeError\<close> of reading a property of \<open>null\<close>.
\<close>

definition sampleOf :: "Service \<Rightarrow> string \<Rightarrow> json \<Rightarrow> HistoricalDataPoint" where
  "sampleOf svc pollutant point =
     \<lparr>hp_timestamp =
        orElse (orElse (getProp point ''time'') (getProp point ''timestamp''))
          (getProp point ''date_debut''),
      hp_value = Some (readingValue (parseFloat svc) (rawReading pollutant point)),
      hp_unit = (case map_of (sv_pollutants svc) pollutant of
                   None \<Rightarrow> []
                 | Some cfg \<Rightarrow> pc_unit cfg)\<rparr>"

definition mapPoint :: "Service \<Rightarrow> string \<Rightarrow> json \<Rightarrow> js_error + HistoricalDataPoint" where
  "mapPoint svc pollutant point =
     (if point = JNull then Inl TypeError else Inr (sampleOf svc pollutant point))"

fun mapPoints :: "(json \<Rightarrow> js_error + 'b) \<Rightarrow> json list \<Rightarrow> js_error + 'b list" where
  "mapPoints f [] = Inr []"
| "mapPoints f (p # ps) =
     (case f p of
        Inl e \<Rightarrow> Inl e
      | Inr x \<Rightarrow> (case mapPoints f ps of Inl e \<Rightarrow> Inl e | Inr xs \<Rightarrow> Inr (x # xs)))"

fun isNaNValue :: "jsnumber option \<Rightarrow> bool" where
  "isNaNValue (Some NaN) = True"
| "isNaNValue _ = False"

text \<open>
  The result is the settlement of the returned promise: \<open>Inl\<close> a rejection, \<open>Inr\<close>
  the array it fulfils with.
\<close>

definition fetchHistoricalData ::
  "Service \<Rightarrow> HistoryParams \<Rightarrow> js_error + json \<Rightarrow> js_error + HistoricalDataPoint list" where
  "fetchHistoricalData svc params answer =
     (case find (\<lambda>s. sensorId s = q_sensorId params) (sensors svc) of
        None \<Rightarrow> Inr []
      | Some config \<Rightarrow>
          (case answer of
             Inl e \<Rightarrow> Inr []
           | Inr response \<Rightarrow>
               (case response of
                  JArr points \<Rightarrow>
                    (case mapPoints (mapPoint svc (q_pollutant params)) points of
                       Inl e \<Rightarrow> Inr []
                     | Inr mapped \<Rightarrow> Inr (filter (\<lambda>p. \<not> isNaNValue (hp_value p)) mapped))
                | _ \<Rightarrow> Inr [])))"

text \<open>
  The built-in \<open>parseFloat\<close>, for the examples: the argument is turned into a string
  and the longest prefix that is a decimal literal is read, after leading white space:
  an optional sign, digits, an optional fraction, an optional exponent. The string of an
  array starts with the string of its first element. \<open>Infinity\<close> is outside the
  numbers of the model.
\<close>

definition isDigit :: "char \<Rightarrow> bool" where
  "isDigit ch = (let n = (of_char ch :: nat) in 48 \<le> n \<and> n \<le> 57)"

definition isWhiteSpace :: "char \<Rightarrow> bool" where
  "isWhiteSpace ch = ((of_char ch :: nat) \<in> {9, 10, 11, 12, 13, 32})"

fun digitsValue :: "nat \<Rightarrow> string \<Rightarrow> nat" where
  "digitsValue acc [] = acc"
| "digitsValue acc (ch # rest) = digitsValue (acc * 10 + (of_char ch - 48)) rest"

definition splitSign :: "string \<Rightarrow> bool \<times> string" where
  "splitSign s =
     (case s of
        [] \<Rightarrow> (False, [])
      | sg # r \<Rightarrow>
          if sg = CHR ''-'' then (True, r)
          else if sg = CHR ''+'' then (False, r)
          else (False, s))"

definition parseExponent :: "string \<Rightarrow> int" where
  "parseExponent s =
     (case s of
        [] \<Rightarrow> 0
      | ch # r \<Rightarrow>
          if ch = CHR ''e'' \<or> ch = CHR ''E'' then
            (let (neg, r') = splitSign r; ds = takeWhile isDigit r' in
             if ds = [] then 0
             else if neg then - int (digitsValue 0 ds)
             else int (digitsValue 0 ds))
          else 0)"

definition scale10 :: "rat \<Rightarrow> int \<Rightarrow> rat" where
  "scale10 x k = (if k \<ge> 0 then x * 10 ^ nat k else x / 10 ^ nat (- k))"

definition parseFloatString :: "string \<Rightarrow> jsnumber" where
  "parseFloatString s =
     (let (neg, s2) = splitSign (dropWhile isWhiteSpace s);
          intDigits = takeWhile isDigit s2;
          afterInt = dropWhile isDigit s2;
          hasPoint = (afterInt \<noteq> [] \<and> hd afterInt = CHR ''.'');
          fracDigits = (if hasPoint then takeWhile isDigit (tl afterInt) else []);
          afterFrac = (if hasPoint then dropWhile isDigit (tl afterInt) else afterInt)
      in
      if intDigits = [] \<and> fracDigits = [] then NaN
      else
        (let mantissa = of_nat (digitsValue 0 intDigits)
                        + of_nat (digitsValue 0 fracDigits) / 10 ^ length fracDigits;
             v = scale10 mantissa (parseExponent afterFrac)
         in Num (if neg then - v else v)))"

fun jsParseFloat :: "json \<Rightarrow> jsnumber" where
  "jsParseFloat (JNum r) = Num r"
| "jsParseFloat (JStr s) = parseFloatString s"
| "jsParseFloat (JArr (x # xs)) = jsParseFloat x"
| "jsParseFloat _ = NaN"

text \<open>
  The fetch collaborator of the panel when it is this service: for each pollutant of a
  load, the parameters of the call and the outcome of the request.
\<close>

definition serviceOutcome ::
  "Service \<Rightarrow> (string \<Rightarrow> HistoryParams) \<Rightarrow> (string \<Rightarrow> js_error + json)
     \<Rightarrow> string \<Rightarrow> js_error + HistoricalDataPoint list" where
  "serviceOutcome svc params answers pollutant =
     fetchHistoricalData svc (params pollutant) (answers pollutant)"

section \<open>Predicates used to state the claims\<close>

text \<open>
  The steps a pollutant declares, as the reducer reads them: \<open>None\<close> when the
  pollutant puts no constraint (no configuration, no list, or an empty list). A step is
  allowed by a pollutant when the pollutant puts no constraint or declares the step.
\<close>

definition declaredSteps :: "PollutantTable \<Rightarrow> string \<Rightarrow> string list option" where
  "declaredSteps tbl code =
     (case map_of tbl code of
        None \<Rightarrow> None
      | Some pollutantConfig \<Rightarrow>
          (case supportedTimeSteps pollutantConfig of
             None \<Rightarrow> None
           | Some steps \<Rightarrow> if steps = [] then None else Some steps))"

definition allowedBy :: "PollutantTable \<Rightarrow> string \<Rightarrow> string \<Rightarrow> bool" where
  "allowedBy tbl code ts =
     (case declaredSteps tbl code of None \<Rightarrow> True | Some steps \<Rightarrow> ts \<in> set steps)"

text \<open>The two parts of the invariant of the chart controls.\<close>

definition stepSupported :: "Env \<Rightarrow> Panel \<Rightarrow> bool" where
  "stepSupported env c =
     (timeStep (chartControls (state c))
        \<in> set (getSupportedTimeStepsForPollutants (pollutants env)
                 (selectedPollutants (chartControls (state c)))))"

definition rangeFitsStep :: "Env \<Rightarrow> Panel \<Rightarrow> bool" where
  "rangeFitsStep env c =
     isTimeStepValidForRange (getMaxHistoryDays env)
       (timeRange (chartControls (state c))) (timeStep (chartControls (state c)))"

text \<open>The key of a fetch, written as a request.\<close>

definition requestFor :: "FetchKind \<Rightarrow> string \<Rightarrow> string list \<Rightarrow> TimeRange \<Rightarrow> string \<Rightarrow> FetchRequest" where
  "requestFor k sid ps tr ts =
     \<lparr>fr_kind = k, fr_sensorId = sid, fr_pollutants = ps, fr_timeRange = tr, fr_timeStep = ts\<rparr>"

text \<open>
  The events of a session in which the panel stays open and the user only selects
  stations; and the state of the gate of the initial load in such a session.
\<close>

fun selectionEvent :: "Event \<Rightarrow> bool" where
  "selectionEvent (PropsChanged opened station) = opened"
| "selectionEvent AnimationFrame = True"
| "selectionEvent (FetchSettled i outcome) = True"
| "selectionEvent _ = False"

definition gateHolds :: "Panel \<Rightarrow> bool" where
  "gateHolds c =
     (length (inFlight c) \<le> 1
      \<and> loadingRef c = (inFlight c \<noteq> [])
      \<and> list_all (\<lambda>r. fr_kind r = FullLoad) (inFlight c))"

section \<open>A configuration and two stations for the examples\<close>

definition exTable :: PollutantTable where
  "exTable =
     [(''pm25'', \<lparr>pc_name = ''PM2.5'', pc_unit = ''ug/m3'',
                  supportedTimeSteps = Some [''instantane'', ''quartHeure'', ''heure'', ''jour'']\<rparr>),
      (''pm10'', \<lparr>pc_name = ''PM10'', pc_unit = ''ug/m3'',
                  supportedTimeSteps = Some [''heure'', ''jour'']\<rparr>),
      (''co2'', \<lparr>pc_name = ''CO2'', pc_unit = ''ppm'',
                 supportedTimeSteps = Some [''instantane'']\<rparr>)]"

definition exMaxHistory :: MaxHistory where
  "exMaxHistory ts =
     (if ts = ''instantane'' then Some 1
      else if ts = ''quartHeure'' then Some 7
      else if ts = ''heure'' then Some 30
      else None)"

definition exEnv :: Env where
  "exEnv = \<lparr>pollutants = exTable, getMaxHistoryDays = exMaxHistory, initialPollutant = ''pm25''\<rparr>"

definition stationA :: StationInfo where
  "stationA = \<lparr>station_id = ''A'', station_name = ''Station_A'',
               variables = [(''pm25'', True), (''pm10'', True), (''co2'', True)]\<rparr>"

definition stationB :: StationInfo where
  "stationB = \<lparr>station_id = ''B'', station_name = ''Station_B'',
               variables = [(''pm25'', True), (''pm10'', True), (''co2'', True)]\<rparr>"

definition sample :: "jsnumber option \<Rightarrow> HistoricalDataPoint" where
  "sample v = \<lparr>hp_timestamp = Some (JStr ''2024-05-01T10:00:00Z''), hp_value = v, hp_unit = ''ug/m3''\<rparr>"

definition seriesA :: "HistoricalDataPoint list" where
  "seriesA = [sample (Some (Num 10)), sample (Some (Num 20)), sample (Some (Num 30))]"

definition answerA :: "string \<Rightarrow> js_error + HistoricalDataPoint list" where
  "answerA pollutant = Inr seriesA"

definition rejection :: "string \<Rightarrow> js_error + HistoricalDataPoint list" where
  "rejection pollutant = Inl (JsError ''HTTP 500 from api.aircarto.fr'')"

definition exService :: Service where
  "exService =
     \<lparr>sensors = [\<lparr>sensorId = ''A'', token = ''t'', campagne = ''c''\<rparr>],
      sv_pollutants = exTable,
      parseFloat = jsParseFloat\<rparr>"

definition exParams :: "string \<Rightarrow> HistoryParams" where
  "exParams pollutant =
     \<lparr>q_sensorId = ''A'', q_pollutant = pollutant, q_timeStep = ''heure'',
      q_startDate = ''2024-05-01T00:00:00.000Z'', q_endDate = ''2024-05-02T00:00:00.000Z''\<rparr>"

definition statsState :: "HistoricalDataPoint list \<Rightarrow> SidePanelState" where
  "statsState data =
     \<lparr>isOpen = True, selectedStation = Some stationA,
      chartControls = \<lparr>selectedPollutants = [''pm25'', ''pm10''], timeRange = presetRange P24h,
                       timeStep = ''heure''\<rparr>,
      historicalData = [''pm25'' \<mapsto> data], loading = False, error = None, infoMessage = None\<rparr>"

text \<open>Sessions: lists of events, run from the initial panel.\<close>

definition readyTrace :: "Event list" where
  "readyTrace = [PropsChanged True (Some stationA), AnimationFrame, FetchSettled 0 answerA]"

definition staleBefore :: "Event list" where
  "staleBefore =
     [PropsChanged True (Some stationA), AnimationFrame, PropsChanged True (Some stationB)]"

definition staleTrace :: "Event list" where
  "staleTrace = staleBefore @ [FetchSettled 0 answerA]"

definition weekClicked :: "Event list" where
  "weekClicked = staleBefore @ [TimeRangeChange (presetRange P7d) 1714557600000]"

definition earlierSettled :: "Event list" where
  "earlierSettled = weekClicked @ [FetchSettled 0 answerA]"

definition dayClicked :: "Event list" where
  "dayClicked = earlierSettled @ [TimeRangeChange (presetRange P24h) 1714557601000]"

definition daySettled :: "Event list" where
  "daySettled = dayClicked @ [FetchSettled 1 answerA]"

definition weekAgain :: "Event list" where
  "weekAgain = daySettled @ [TimeRangeChange (presetRange P7d) 1714557602000]"

definition staleToggle :: "Event list" where
  "staleToggle = readyTrace @ [PollutantToggle ''pm10'', PropsChanged True (Some stationB)]"

definition rangeChanged :: "Event list" where
  "rangeChanged = readyTrace @ [TimeRangeChange (presetRange P7d) 1714557600000]"

definition rejectTrace :: "Event list" where
  "rejectTrace = rangeChanged @ [FetchSettled 0 rejection]"

definition toggledOn :: "Event list" where
  "toggledOn = readyTrace @ [PollutantToggle ''pm10'']"

definition toggledOff :: "Event list" where
  "toggledOff = toggledOn @ [PollutantToggle ''pm10'']"

definition mismatchTrace :: "Event list" where
  "mismatchTrace = readyTrace @ [PollutantToggle ''co2'']"

definition weekLoaded :: "Event list" where
  "weekLoaded = rangeChanged @ [FetchSettled 0 answerA]"

definition selectedA :: "Event list" where
  "selectedA = [PropsChanged True (Some stationA)]"

definition twoSelections :: "Event list" where
  "twoSelections =
     [PropsChanged True (Some stationA), PropsChanged True (Some stationB), AnimationFrame]"

definition unknownSensor :: HistoryParams where
  "unknownSensor = (exParams ''pm25'')\<lparr>q_sensorId := ''Z''\<rparr>"

definition exPoints :: "json list" where
  "exPoints =
     [JObj [(''time'', JStr ''2024-05-01T10:00:00Z''), (''PM25'', JStr ''12.5'')],
      JObj [(''time'', JStr ''2024-05-01T11:00:00Z'')],
      JObj [(''time'', JStr ''2024-05-01T12:00:00Z''), (''PM25'', JStr ''-1'')],
      JObj [(''time'', JStr ''2024-05-01T13:00:00Z''), (''PM25'', JNull)],
      JObj [(''time'', JStr ''2024-05-01T14:00:00Z''), (''PM25'', JStr ''n/a'')],
      JObj [(''time'', JStr ''2024-05-01T15:00:00Z''), (''PM25'', JNum 7)]]"



definition narrowTable :: PollutantTable where
  "narrowTable =
     [(''pm25'', \<lparr>pc_name = ''PM2.5'', pc_unit = ''ug/m3'',
                  supportedTimeSteps = Some [''deuxMin'']\<rparr>)]"

definition narrowEnv :: Env where
  "narrowEnv = \<lparr>pollutants = narrowTable, getMaxHistoryDays = exMaxHistory, initialPollutant = ''pm25''\<rparr>"

section \<open>Unfolding the model on the examples\<close>

lemmas example_defs =
  exEnv_def exTable_def exMaxHistory_def stationA_def stationB_def sample_def seriesA_def
  answerA_def rejection_def exService_def exParams_def narrowEnv_def narrowTable_def

lemmas panel_defs =
  run_def step_def initialPanel_def initialState_def initialTimeStep_def propsChanged_def
  passesEarlyReturn_def
  stationEffect_def getInitialTimeStepForPollutants_def getSupportedTimeStepsForPollutants_def
  narrowSteps_def MODULEAIR_TIMESTEP_OPTIONS_def getAvailablePollutants_def
  isPollutantAvailable_def animationFrame_def loadHistoricalData_def settleFetch_def
  loadKeyOf_def presetRange_def customRange_def handlePollutantToggle_def
  handleTimeRangeChange_def handleTimeStepChange_def adjustTimeRangeIfNeeded_def
  adjustNotice_def controlsVisible_def Let_def

lemmas trace_defs =
  readyTrace_def staleBefore_def staleTrace_def weekClicked_def earlierSettled_def
  dayClicked_def daySettled_def weekAgain_def staleToggle_def rangeChanged_def
  rejectTrace_def toggledOn_def toggledOff_def mismatchTrace_def weekLoaded_def
  selectedA_def twoSelections_def requestFor_def

lemmas supported_defs =
  exTable_def getSupportedTimeStepsForPollutants_def narrowSteps_def MODULEAIR_TIMESTEP_OPTIONS_def

lemma exEnv_fields [simp]:
  "pollutants exEnv = exTable" "getMaxHistoryDays exEnv = exMaxHistory"
  "initialPollutant exEnv = ''pm25''"
  by (simp_all add: exEnv_def)

section \<open>Supported steps of a selection\<close>

lemma narrowSteps_filter: "narrowSteps tbl acc c = filter (\<lambda>ts. allowedBy tbl c ts) acc"
  by (simp add: narrowSteps_def allowedBy_def declaredSteps_def split: option.splits)

lemma foldl_narrowSteps:
  "foldl (narrowSteps tbl) acc codes = filter (\<lambda>ts. \<forall>c \<in> set codes. allowedBy tbl c ts) acc"
proof (induction codes arbitrary: acc)
  case Nil
  then show ?case by simp
next
  case (Cons c cs)
  have "foldl (narrowSteps tbl) acc (c # cs)
          = filter (\<lambda>ts. \<forall>c \<in> set cs. allowedBy tbl c ts) (narrowSteps tbl acc c)"
    by (simp add: Cons.IH)
  also have "\<dots> = filter (\<lambda>ts. \<forall>c \<in> set (c # cs). allowedBy tbl c ts) acc"
    unfolding narrowSteps_filter by (simp add: conj_commute)
  finally show ?case .
qed

lemma supported_filter:
  "getSupportedTimeStepsForPollutants tbl codes =
     filter (\<lambda>ts. \<forall>c \<in> set codes. allowedBy tbl c ts) MODULEAIR_TIMESTEP_OPTIONS"
  by (simp add: getSupportedTimeStepsForPollutants_def foldl_narrowSteps)

text \<open>
  Claim C4, as stated, fails: PM10 declares hourly and daily steps, CO2 the instantaneous
  one, no step is common to both, and the function returns the empty list, not the full
  enumerated list.
\<close>

theorem C4_counterexample:
  "declaredSteps exTable ''pm10'' = Some [''heure'', ''jour'']
   \<and> declaredSteps exTable ''co2'' = Some [''instantane'']
   \<and> set [''heure'', ''jour''] \<inter> set [''instantane''] = ({} :: string set)
   \<and> getSupportedTimeStepsForPollutants exTable [''pm10'', ''co2''] = []
   \<and> getSupportedTimeStepsForPollutants exTable [''pm10'', ''co2''] \<noteq> MODULEAIR_TIMESTEP_OPTIONS"
  by (simp add: declaredSteps_def exTable_def getSupportedTimeStepsForPollutants_def
      narrowSteps_def MODULEAIR_TIMESTEP_OPTIONS_def)

text \<open>
  Claim C4, amended: the result is the list of the enumerated steps, in their order, that
  every selected pollutant allows, where a pollutant without configuration, without
  declared steps or with an empty list of them allows every step; the empty selection
  gives the full enumerated list; when no enumerated step is allowed by all selected
  pollutants the result is empty.
\<close>

theorem C4_supported_steps:
  "getSupportedTimeStepsForPollutants tbl codes =
     filter (\<lambda>ts. \<forall>c \<in> set codes. allowedBy tbl c ts) MODULEAIR_TIMESTEP_OPTIONS
   \<and> getSupportedTimeStepsForPollutants tbl [] = MODULEAIR_TIMESTEP_OPTIONS
   \<and> ((\<forall>ts \<in> set MODULEAIR_TIMESTEP_OPTIONS. \<exists>c \<in> set codes. \<not> allowedBy tbl c ts)
        \<longrightarrow> getSupportedTimeStepsForPollutants tbl codes = [])"
proof -
  have a: "getSupportedTimeStepsForPollutants tbl codes =
     filter (\<lambda>ts. \<forall>c \<in> set codes. allowedBy tbl c ts) MODULEAIR_TIMESTEP_OPTIONS"
    by (rule supported_filter)
  have b: "getSupportedTimeStepsForPollutants tbl [] = MODULEAIR_TIMESTEP_OPTIONS"
    by (simp add: getSupportedTimeStepsForPollutants_def)
  have c: "(\<forall>ts \<in> set MODULEAIR_TIMESTEP_OPTIONS. \<exists>c \<in> set codes. \<not> allowedBy tbl c ts)
        \<longrightarrow> getSupportedTimeStepsForPollutants tbl codes = []"
    unfolding a by (simp add: filter_empty_conv)
  from a b c show ?thesis by blast
qed

text \<open>
  Claim C4, amended, on the example table: PM2.5 with PM10, the empty selection, and PM10
  with CO2.
\<close>

theorem C4_supported_steps_witness:
  "getSupportedTimeStepsForPollutants exTable [''pm25'', ''pm10''] = [''heure'', ''jour'']
   \<and> getSupportedTimeStepsForPollutants exTable [] = [''instantane'', ''quartHeure'', ''heure'', ''jour'']
   \<and> getSupportedTimeStepsForPollutants exTable [''pm10'', ''co2''] = []"
proof -
  have h: "\<forall>ts \<in> set MODULEAIR_TIMESTEP_OPTIONS. \<exists>c \<in> set [''pm10'', ''co2'']. \<not> allowedBy exTable c ts"
    by (simp add: MODULEAIR_TIMESTEP_OPTIONS_def allowedBy_def declaredSteps_def exTable_def)
  show ?thesis
    using h C4_supported_steps [of exTable "[''pm25'', ''pm10'']"]
      C4_supported_steps [of exTable "[''pm10'', ''co2'']"]
    by (simp add: MODULEAIR_TIMESTEP_OPTIONS_def allowedBy_def declaredSteps_def exTable_def)
qed

section \<open>Reconciling a range with a step\<close>

lemma isoDate_getTime [simp]: "isoDate (getTime d) = d"
  by (simp add: isoDate_def getTime_def msPerDay_def)

lemma isoDate_getTime_minus [simp]: "isoDate (getTime d - 86400000 * int m) = d - int m"
proof -
  have "getTime d - 86400000 * int m = (d - int m) * msPerDay"
    by (simp add: getTime_def msPerDay_def algebra_simps)
  then show ?thesis by (simp add: isoDate_def msPerDay_def)
qed

lemma ceilDays_getTime [simp]: "ceilDays (getTime e - getTime s) = e - s"
proof -
  have "- (getTime e - getTime s) = (s - e) * msPerDay"
    by (simp add: getTime_def algebra_simps)
  then have "(- (getTime e - getTime s)) div msPerDay = s - e"
    by (simp add: msPerDay_def)
  then show ?thesis by (simp add: ceilDays_def)
qed

lemma isoDate_minus_days [simp]: "isoDate (now - 86400000 * int m) = isoDate now - int m"
proof -
  have "now - 86400000 * int m = now + (- int m) * msPerDay"
    by (simp add: msPerDay_def)
  then show ?thesis unfolding isoDate_def by (simp add: msPerDay_def)
qed

text \<open>
  Claim C7: for every range, step and clock readings, adjusting the range that an
  adjustment produced, at the same step, returns that range unchanged and reports that
  nothing was adjusted.
\<close>

theorem C7_reconcile_idempotent:
  "adjustTimeRangeIfNeeded maxHistory now' (fst (adjustTimeRangeIfNeeded maxHistory now tr ts)) ts
     = (fst (adjustTimeRangeIfNeeded maxHistory now tr ts), False)"
  by (auto simp: adjustTimeRangeIfNeeded_def customRange_def Let_def
      split: option.splits RangeType.splits)

text \<open>
  Claim C7 at the seven-day preset and the instantaneous step (one day of history): the
  first adjustment gives a custom range of one day, the second, five days later on the
  clock, leaves it as it is.
\<close>

theorem C7_reconcile_idempotent_witness:
  "adjustTimeRangeIfNeeded exMaxHistory 1714557600000 (presetRange P7d) ''instantane''
     = (customRange 19843 19844, True)
   \<and> adjustTimeRangeIfNeeded exMaxHistory 1714989600000 (customRange 19843 19844) ''instantane''
     = (customRange 19843 19844, False)"
proof -
  have first: "adjustTimeRangeIfNeeded exMaxHistory 1714557600000 (presetRange P7d) ''instantane''
     = (customRange 19843 19844, True)"
    by (simp add: adjustTimeRangeIfNeeded_def exMaxHistory_def presetRange_def isoDate_def msPerDay_def)
  show ?thesis
    using C7_reconcile_idempotent [of exMaxHistory 1714989600000 1714557600000 "presetRange P7d" "''instantane''"]
    by (simp add: first)
qed

section \<open>Properties of the statistics\<close>

lemma numeric_values:
  "map numberOf (filter isNumeric vs) = [r. Some (Num r) \<leftarrow> vs]"
proof (induction vs)
  case Nil
  then show ?case by simp
next
  case (Cons v vs)
  then show ?case
    by (cases v rule: isNumeric.cases) simp_all
qed

lemma foldl_add_sum: "foldl (+) a (vs :: rat list) = a + sum_list vs"
  by (induction vs arbitrary: a) (simp_all add: add.assoc)

lemma foldl_max_Max: "foldl max a (vs :: rat list) = Max (insert a (set vs))"
proof (induction vs arbitrary: a)
  case Nil
  then show ?case by simp
next
  case (Cons v vs)
  have "Max (insert (max a v) (set vs)) = Max (insert a (insert v (set vs)))"
    by (cases "set vs = {}") (simp_all add: max.assoc max.commute max.left_commute)
  then show ?case by (simp add: Cons.IH)
qed

lemma foldl_min_Min: "foldl min a (vs :: rat list) = Min (insert a (set vs))"
proof (induction vs arbitrary: a)
  case Nil
  then show ?case by simp
next
  case (Cons v vs)
  have "Min (insert (min a v) (set vs)) = Min (insert a (insert v (set vs)))"
    by (cases "set vs = {}") (simp_all add: min.assoc min.commute min.left_commute)
  then show ?case by (simp add: Cons.IH)
qed

lemma mathMax_Max: "vs \<noteq> [] \<Longrightarrow> mathMax vs = Max (set vs)"
  by (cases vs) (simp_all add: mathMax_def foldl_max_Max)

lemma mathMin_Min: "vs \<noteq> [] \<Longrightarrow> mathMin vs = Min (set vs)"
  by (cases vs) (simp_all add: mathMin_def foldl_min_Min)

lemma stats_primary:
  assumes "selectedPollutants (chartControls s) = p # ps" and "p \<noteq> []"
    and "historicalData s p = Some data"
  shows "stats env s =
      (let vals = [r. Some (Num r) \<leftarrow> map hp_value data] in
       if vals = [] then None
       else Some \<lparr>st_avg = sum_list vals / of_nat (length vals),
                  st_max = Max (set vals), st_min = Min (set vals),
                  st_unit = statsUnit env p data\<rparr>)"
proof (cases "[r. Some (Num r) \<leftarrow> map hp_value data] = []")
  case True
  with assms show ?thesis
    by (simp add: stats_def Let_def numeric_values)
next
  case False
  then have "data \<noteq> []" by auto
  with False assms show ?thesis
    by (simp add: stats_def Let_def numeric_values foldl_add_sum mathMax_Max mathMin_Min)
qed

lemma no_numeric:
  "\<forall>d \<in> set data. hp_value d = None \<or> hp_value d = Some NaN \<Longrightarrow>
     [r. Some (Num r) \<leftarrow> map hp_value data] = []"
  by (induction data) auto

text \<open>
  Claim C8: the statistics are computed over the series of the first selected pollutant,
  from its numeric values only (null and NaN samples are left out): mean, maximum and
  minimum of those values. For the values 10, 20, 30 they are 20, 30 and 10. For a series
  that is empty or has no numeric sample the statistics are absent.
\<close>

theorem C8_statistics:
  assumes "selectedPollutants (chartControls s) = p # ps" and "p \<noteq> []"
    and "historicalData s p = Some data"
  shows "stats env s =
      (let vals = [r. Some (Num r) \<leftarrow> map hp_value data] in
       if vals = [] then None
       else Some \<lparr>st_avg = sum_list vals / of_nat (length vals),
                  st_max = Max (set vals), st_min = Min (set vals),
                  st_unit = statsUnit env p data\<rparr>)
    \<and> (map hp_value data = [Some (Num 10), Some (Num 20), Some (Num 30)] \<longrightarrow>
         stats env s = Some \<lparr>st_avg = 20, st_max = 30, st_min = 10,
                              st_unit = statsUnit env p data\<rparr>)
    \<and> ((\<forall>d \<in> set data. hp_value d = None \<or> hp_value d = Some NaN) \<longrightarrow> stats env s = None)"
proof -
  note char = stats_primary [OF assms, of env]
  have ex: "stats env s = Some \<lparr>st_avg = 20, st_max = 30, st_min = 10,
                              st_unit = statsUnit env p data\<rparr>"
    if "map hp_value data = [Some (Num 10), Some (Num 20), Some (Num 30)]"
    unfolding char using that by simp
  have none: "stats env s = None"
    if "\<forall>d \<in> set data. hp_value d = None \<or> hp_value d = Some NaN"
    unfolding char using no_numeric [OF that] by simp
  from char ex none show ?thesis by blast
qed

text \<open>
  Claim C8 on the series 10, 20, 30, on a series of a null and a NaN, on the empty
  series, and on 10, 20, 30 with a null and a NaN in between.
\<close>

theorem C8_statistics_witness:
  "stats exEnv (statsState seriesA)
     = Some \<lparr>st_avg = 20, st_max = 30, st_min = 10, st_unit = ''ug/m3''\<rparr>
   \<and> stats exEnv (statsState [sample None, sample (Some NaN)]) = None
   \<and> stats exEnv (statsState []) = None
   \<and> stats exEnv (statsState [sample (Some (Num 10)), sample None, sample (Some (Num 20)),
                                sample (Some NaN), sample (Some (Num 30))])
     = Some \<lparr>st_avg = 20, st_max = 30, st_min = 10, st_unit = ''ug/m3''\<rparr>"
proof -
  have sel: "\<And>d. selectedPollutants (chartControls (statsState d)) = ''pm25'' # [''pm10'']"
    and ne: "''pm25'' \<noteq> []"
    and st: "\<And>d. historicalData (statsState d) ''pm25'' = Some d"
    by (simp_all add: statsState_def)
  show ?thesis
    using C8_statistics [OF sel ne st, of exEnv seriesA]
      C8_statistics [OF sel ne st, of exEnv "[sample None, sample (Some NaN)]"]
      C8_statistics [OF sel ne st, of exEnv "[]"]
      C8_statistics [OF sel ne st, of exEnv "[sample (Some (Num 10)), sample None, sample (Some (Num 20)),
                                sample (Some NaN), sample (Some (Num 30))]"]
    by (simp add: seriesA_def sample_def statsUnit_def)
qed

section \<open>Properties of the service\<close>

lemma fetchHistoricalData_fulfils: "\<exists>data. fetchHistoricalData svc params answer = Inr data"
  by (simp add: fetchHistoricalData_def split: option.splits sum.splits json.splits)

lemma fetchAll_service:
  "\<exists>newData. fetchAll (serviceOutcome svc params answers) ps acc = Inr newData"
proof (induction ps arbitrary: acc)
  case Nil
  then show ?case by simp
next
  case (Cons p ps)
  obtain d where "serviceOutcome svc params answers p = Inr d"
    unfolding serviceOutcome_def using fetchHistoricalData_fulfils by blast
  with Cons.IH show ?case by simp
qed

lemma find_None_sensor:
  "q_sensorId params \<notin> sensorId ` set (sensors svc) \<Longrightarrow>
     find (\<lambda>s. sensorId s = q_sensorId params) (sensors svc) = None"
  by (force simp: find_None_iff)

lemma settle_service_no_error:
  "error (state (settleFetch c i (serviceOutcome svc params answers))) = error (state c)
   \<and> unhandled (settleFetch c i (serviceOutcome svc params answers)) = unhandled c"
proof (cases "i < length (inFlight c)")
  case False
  then show ?thesis by (simp add: settleFetch_def)
next
  case True
  obtain nd where nd: "fetchAll (serviceOutcome svc params answers) (fr_pollutants (inFlight c ! i)) Map.empty = Inr nd"
    using fetchAll_service by blast
  have one: "\<And>p. \<exists>d. serviceOutcome svc params answers p = Inr d"
    unfolding serviceOutcome_def using fetchHistoricalData_fulfils by blast
  show ?thesis
  proof (cases "fr_kind (inFlight c ! i)")
    case FullLoad
    with True nd show ?thesis by (simp add: settleFetch_def Let_def)
  next
    case Incremental
    show ?thesis
    proof (cases "fr_pollutants (inFlight c ! i)")
      case Nil
      with True Incremental show ?thesis by (simp add: settleFetch_def Let_def)
    next
      case (Cons p ps)
      obtain d where "serviceOutcome svc params answers p = Inr d" using one by blast
      with True Incremental Cons show ?thesis by (simp add: settleFetch_def Let_def)
    qed
  qed
qed

text \<open>
  Claim C9: the promise of \<open>fetchHistoricalData\<close> always fulfils. For a sensor
  that is not configured it fulfils with the empty array, and when the request throws the
  error is caught and it fulfils with the empty array. A load of the panel that goes
  through this service therefore never reaches the \<open>catch\<close> of the panel: settling a
  fetch with the outcomes of the service leaves the error message and the log of
  unhandled rejections as they were.
\<close>

theorem C9_service_never_rejects:
  "(\<exists>data. fetchHistoricalData svc params answer = Inr data)
   \<and> (q_sensorId params \<notin> sensorId ` set (sensors svc) \<longrightarrow>
        fetchHistoricalData svc params answer = Inr [])
   \<and> fetchHistoricalData svc params (Inl e) = Inr []
   \<and> (\<exists>newData. fetchAll (serviceOutcome svc ps answers) pollutantCodes Map.empty = Inr newData)
   \<and> error (state (settleFetch c i (serviceOutcome svc ps answers))) = error (state c)
   \<and> unhandled (settleFetch c i (serviceOutcome svc ps answers)) = unhandled c"
proof -
  have a: "\<exists>data. fetchHistoricalData svc params answer = Inr data"
    by (rule fetchHistoricalData_fulfils)
  have b: "q_sensorId params \<notin> sensorId ` set (sensors svc) \<longrightarrow>
        fetchHistoricalData svc params answer = Inr []"
    by (auto simp: fetchHistoricalData_def dest: find_None_sensor)
  have c: "fetchHistoricalData svc params (Inl e) = Inr []"
    by (simp add: fetchHistoricalData_def split: option.splits)
  have d: "\<exists>newData. fetchAll (serviceOutcome svc ps answers) pollutantCodes Map.empty = Inr newData"
    by (rule fetchAll_service)
  from a b c d settle_service_no_error [of c i svc ps answers] show ?thesis by blast
qed

text \<open>
  Claim C9 at a sensor that is not configured, at a request that throws, at an array
  holding \<open>null\<close> (whose \<open>TypeError\<close> is caught) and at an answer that is no array.
\<close>

theorem C9_service_never_rejects_witness:
  "fetchHistoricalData exService unknownSensor (Inr (JArr exPoints)) = Inr []
   \<and> fetchHistoricalData exService (exParams ''pm25'') (Inl (JsError ''Failed to fetch'')) = Inr []
   \<and> fetchHistoricalData exService (exParams ''pm25'') (Inr (JArr [JNull])) = Inr []
   \<and> fetchHistoricalData exService (exParams ''pm25'') (Inr (JStr ''Bad gateway'')) = Inr []"
proof -
  have h: "q_sensorId unknownSensor \<notin> sensorId ` set (sensors exService)"
    by (simp add: unknownSensor_def exService_def)
  have ev: "fetchHistoricalData exService (exParams ''pm25'') (Inr (JArr [JNull])) = Inr []"
      "fetchHistoricalData exService (exParams ''pm25'') (Inr (JStr ''Bad gateway'')) = Inr []"
    by (simp_all add: fetchHistoricalData_def exService_def exParams_def mapPoint_def)
  show ?thesis
    using C9_service_never_rejects [of exService unknownSensor "Inr (JArr exPoints)"]
      C9_service_never_rejects [of exService "exParams ''pm25''" _ "JsError ''Failed to fetch''"]
      h ev
    by simp
qed

section \<open>Readings mapped by the service\<close>















section \<open>Settlement of a fetch on the current state\<close>

lemma settle_full:
  assumes "i < length (inFlight c)" and "fr_kind (inFlight c ! i) = FullLoad"
  shows "settleFetch c i outcome =
           completeLoad (c\<lparr>inFlight := take i (inFlight c) @ drop (Suc i) (inFlight c)\<rparr>)
             (fetchAll outcome (fr_pollutants (inFlight c ! i)) Map.empty)"
  using assms by (simp add: settleFetch_def Let_def)

lemma new_station_resets:
  assumes "phase c = Live" and "p_isOpen c" and "p_selectedStation c \<noteq> None"
    and "Some (station_id st) \<noteq> stationIdRef c"
  shows "historicalData (state (propsChanged env c True (Some st))) = Map.empty
    \<and> \<not> loading (state (propsChanged env c True (Some st)))
    \<and> error (state (propsChanged env c True (Some st))) = None
    \<and> selectedStation (state (propsChanged env c True (Some st))) = Some st
    \<and> inFlight (propsChanged env c True (Some st)) = inFlight c"
  using assms
  by (simp add: propsChanged_def passesEarlyReturn_def stationEffect_def Let_def)

lemma settle_incremental:
  assumes "i < length (inFlight c)" and "fr_kind (inFlight c ! i) = Incremental"
    and "fr_pollutants (inFlight c ! i) = p # ps" and "outcome p = Inr data"
  shows "state (settleFetch c i outcome)
           = (state c)\<lparr>historicalData := (historicalData (state c))(p \<mapsto> data)\<rparr>"
  using assms by (simp add: settleFetch_def Let_def)

lemma settle_incremental_rejected:
  assumes "i < length (inFlight c)" and "fr_kind (inFlight c ! i) = Incremental"
    and "fr_pollutants (inFlight c ! i) = p # ps" and "outcome p = Inl e"
  shows "state (settleFetch c i outcome) = state c"
  using assms by (simp add: settleFetch_def Let_def)

text \<open>
  Claim C1, as stated, fails: station A is selected and its load dispatched, station B
  is selected while that load is in flight (the store is emptied, no load for B is
  scheduled), then the load of A settles. The panel, on station B and with its controls
  shown, holds the series of A.
\<close>

theorem C1_counterexample:
  "inFlight (run exEnv (initialPanel exEnv) staleBefore)
      = [requestFor FullLoad ''A'' [''pm25''] (presetRange P24h) ''heure'']
   \<and> selectedStation (state (run exEnv (initialPanel exEnv) staleBefore)) = Some stationB
   \<and> stationIdRef (run exEnv (initialPanel exEnv) staleBefore) = Some ''B''
   \<and> historicalData (state (run exEnv (initialPanel exEnv) staleBefore)) ''pm25'' = None
   \<and> selectedStation (state (run exEnv (initialPanel exEnv) staleTrace)) = Some stationB
   \<and> historicalData (state (run exEnv (initialPanel exEnv) staleTrace)) ''pm25'' = Some seriesA
   \<and> controlsVisible (run exEnv (initialPanel exEnv) staleTrace)"
  by (simp add: trace_defs panel_defs example_defs)

text \<open>
  Claim C1, amended: no settlement is compared with the current session. Whatever
  station and controls a fetch was issued for, a fulfilled full load replaces the store
  by its series and clears the loading flag; a rejected full load sets the error message
  and clears the loading flag; a fulfilled incremental fetch puts its series into the
  store under its pollutant; a rejected incremental fetch changes nothing in the state;
  each of them leaves the rest of the state, with the selected station and the chart
  controls, as it is. The selection of a new station on an open
  panel empties the store and clears the loading flag and the error at that moment, and
  the fetches in flight stay in flight.
\<close>

theorem C1_settlement_not_discarded:
  "(i < length (inFlight c) \<and> fr_kind (inFlight c ! i) = FullLoad
      \<and> fetchAll outcome (fr_pollutants (inFlight c ! i)) Map.empty = Inr newData \<longrightarrow>
        state (settleFetch c i outcome)
          = (state c)\<lparr>historicalData := newData, loading := False\<rparr>)
   \<and> (i < length (inFlight c) \<and> fr_kind (inFlight c ! i) = FullLoad
      \<and> fetchAll outcome (fr_pollutants (inFlight c ! i)) Map.empty = Inl e \<longrightarrow>
        state (settleFetch c i outcome)
          = (state c)\<lparr>loading := False, error := Some LOAD_ERROR_MESSAGE\<rparr>)
   \<and> (i < length (inFlight c) \<and> fr_kind (inFlight c ! i) = Incremental
      \<and> fr_pollutants (inFlight c ! i) = p # ps \<and> outcome p = Inr data \<longrightarrow>
        state (settleFetch c i outcome)
          = (state c)\<lparr>historicalData := (historicalData (state c))(p \<mapsto> data)\<rparr>)
   \<and> (i < length (inFlight c) \<and> fr_kind (inFlight c ! i) = Incremental
      \<and> fr_pollutants (inFlight c ! i) = p # ps \<and> outcome p = Inl e \<longrightarrow>
        state (settleFetch c i outcome) = state c)
   \<and> (phase c = Live \<and> p_isOpen c \<and> p_selectedStation c \<noteq> None
      \<and> Some (station_id st) \<noteq> stationIdRef c \<longrightarrow>
        historicalData (state (propsChanged env c True (Some st))) = Map.empty
        \<and> \<not> loading (state (propsChanged env c True (Some st)))
        \<and> error (state (propsChanged env c True (Some st))) = None
        \<and> selectedStation (state (propsChanged env c True (Some st))) = Some st
        \<and> inFlight (propsChanged env c True (Some st)) = inFlight c)"
proof -
  have a: "state (settleFetch c i outcome)
          = (state c)\<lparr>historicalData := newData, loading := False\<rparr>"
    if "i < length (inFlight c)" "fr_kind (inFlight c ! i) = FullLoad"
      "fetchAll outcome (fr_pollutants (inFlight c ! i)) Map.empty = Inr newData"
    using that by (simp add: settle_full)
  have b: "state (settleFetch c i outcome)
          = (state c)\<lparr>loading := False, error := Some LOAD_ERROR_MESSAGE\<rparr>"
    if "i < length (inFlight c)" "fr_kind (inFlight c ! i) = FullLoad"
      "fetchAll outcome (fr_pollutants (inFlight c ! i)) Map.empty = Inl e"
    using that by (simp add: settle_full)
  from a b settle_incremental [of i c p ps outcome data]
    settle_incremental_rejected [of i c p ps outcome e] new_station_resets [of c st env]
  show ?thesis by blast
qed

text \<open>
  Claim C1, amended, on the panel of station B: the load of A fulfils; the load of A is
  rejected; an incremental fetch issued for A fulfils, or is rejected; and station A is
  selected again while its load is still in flight.
\<close>

theorem C1_settlement_not_discarded_witness:
  "historicalData (state (settleFetch (run exEnv (initialPanel exEnv) staleBefore) 0 answerA))
      = [''pm25'' \<mapsto> seriesA]
   \<and> selectedStation (state (settleFetch (run exEnv (initialPanel exEnv) staleBefore) 0 answerA))
      = Some stationB
   \<and> error (state (settleFetch (run exEnv (initialPanel exEnv) staleBefore) 0 rejection))
      = Some LOAD_ERROR_MESSAGE
   \<and> selectedStation (state (settleFetch (run exEnv (initialPanel exEnv) staleBefore) 0 rejection))
      = Some stationB
   \<and> historicalData (state (settleFetch (run exEnv (initialPanel exEnv) staleToggle) 0 answerA))
      = [''pm10'' \<mapsto> seriesA]
   \<and> selectedStation (state (settleFetch (run exEnv (initialPanel exEnv) staleToggle) 0 answerA))
      = Some stationB
   \<and> historicalData (state (settleFetch (run exEnv (initialPanel exEnv) staleToggle) 0 rejection))
      = Map.empty
   \<and> historicalData (state (propsChanged exEnv (run exEnv (initialPanel exEnv) staleBefore) True (Some stationA)))
      = Map.empty
   \<and> inFlight (propsChanged exEnv (run exEnv (initialPanel exEnv) staleBefore) True (Some stationA))
      = [requestFor FullLoad ''A'' [''pm25''] (presetRange P24h) ''heure'']"
proof -
  let ?c = "run exEnv (initialPanel exEnv) staleBefore"
  let ?d = "run exEnv (initialPanel exEnv) staleToggle"
  have c: "inFlight ?c = [requestFor FullLoad ''A'' [''pm25''] (presetRange P24h) ''heure'']"
      "selectedStation (state ?c) = Some stationB" "stationIdRef ?c = Some ''B''"
      "historicalData (state ?c) = Map.empty"
      "phase ?c = Live" "p_isOpen ?c" "p_selectedStation ?c = Some stationB"
    by (simp_all add: trace_defs panel_defs example_defs)
  have d: "inFlight ?d = [requestFor Incremental ''A'' [''pm10''] (presetRange P24h) ''heure'']"
      "selectedStation (state ?d) = Some stationB" "historicalData (state ?d) = Map.empty"
    by (simp_all add: trace_defs panel_defs example_defs)
  have h1: "0 < length (inFlight ?c)" "fr_kind (inFlight ?c ! 0) = FullLoad"
      "fetchAll answerA (fr_pollutants (inFlight ?c ! 0)) Map.empty = Inr [''pm25'' \<mapsto> seriesA]"
      "fetchAll rejection (fr_pollutants (inFlight ?c ! 0)) Map.empty
         = Inl (JsError ''HTTP 500 from api.aircarto.fr'')"
    by (simp_all add: c requestFor_def answerA_def rejection_def)
  have h2: "0 < length (inFlight ?d)" "fr_kind (inFlight ?d ! 0) = Incremental"
      "fr_pollutants (inFlight ?d ! 0) = ''pm10'' # []" "answerA ''pm10'' = Inr seriesA"
      "rejection ''pm10'' = Inl (JsError ''HTTP 500 from api.aircarto.fr'')"
    by (simp_all add: d requestFor_def answerA_def rejection_def)
  have h3: "Some (station_id stationA) \<noteq> stationIdRef ?c"
    by (simp add: c stationA_def)
  show ?thesis
    using C1_settlement_not_discarded [where c = ?c and i = 0 and outcome = answerA
          and newData = "[''pm25'' \<mapsto> seriesA]" and st = stationA and env = exEnv]
      C1_settlement_not_discarded [where c = ?c and i = 0 and outcome = rejection
          and e = "JsError ''HTTP 500 from api.aircarto.fr''"]
      C1_settlement_not_discarded [where c = ?d and i = 0 and outcome = answerA
          and p = "''pm10''" and ps = "[]" and data = seriesA]
      C1_settlement_not_discarded [where c = ?d and i = 0 and outcome = rejection
          and p = "''pm10''" and ps = "[]" and e = "JsError ''HTTP 500 from api.aircarto.fr''"]
      h1 h2 h3 c d
    by simp
qed

section \<open>Rejection of a full load\<close>

text \<open>
  Claim C5, as stated, fails on the store: station A is loaded, the range is changed to
  seven days and the load of that change is rejected. The error message is set, and the
  store still holds the series loaded before.
\<close>

theorem C5_counterexample:
  "controlsVisible (run exEnv (initialPanel exEnv) readyTrace)
   \<and> inFlight (run exEnv (initialPanel exEnv) rangeChanged)
      = [requestFor FullLoad ''A'' [''pm25''] (presetRange P7d) ''heure'']
   \<and> error (state (run exEnv (initialPanel exEnv) rejectTrace)) = Some LOAD_ERROR_MESSAGE
   \<and> historicalData (state (run exEnv (initialPanel exEnv) rejectTrace)) ''pm25'' = Some seriesA
   \<and> historicalData (state (run exEnv (initialPanel exEnv) rejectTrace)) \<noteq> Map.empty"
  by (auto simp add: trace_defs panel_defs example_defs fun_eq_iff)

text \<open>
  Claim C5, amended: on rejection of a full load the error becomes the fixed message,
  whatever the error raised; the loading flags are cleared; the store is left as it was
  before the settlement; nothing is left unhandled.
\<close>

theorem C5_rejection:
  assumes "i < length (inFlight c)" and "fr_kind (inFlight c ! i) = FullLoad"
    and "fetchAll outcome (fr_pollutants (inFlight c ! i)) Map.empty = Inl e"
  shows "error (state (settleFetch c i outcome)) = Some LOAD_ERROR_MESSAGE
    \<and> \<not> loading (state (settleFetch c i outcome))
    \<and> \<not> isLoading (settleFetch c i outcome)
    \<and> \<not> loadingRef (settleFetch c i outcome)
    \<and> historicalData (state (settleFetch c i outcome)) = historicalData (state c)
    \<and> unhandled (settleFetch c i outcome) = unhandled c"
  by (simp add: settle_full [OF assms(1,2)] assms(3))

text \<open>
  Claim C5, amended, at the rejected load of the session above.
\<close>

theorem C5_rejection_witness:
  "error (state (settleFetch (run exEnv (initialPanel exEnv) rangeChanged) 0 rejection))
      = Some LOAD_ERROR_MESSAGE
   \<and> historicalData (state (settleFetch (run exEnv (initialPanel exEnv) rangeChanged) 0 rejection))
      = [''pm25'' \<mapsto> seriesA]
   \<and> unhandled (settleFetch (run exEnv (initialPanel exEnv) rangeChanged) 0 rejection) = []"
proof -
  let ?c = "run exEnv (initialPanel exEnv) rangeChanged"
  have inflight: "inFlight ?c = [requestFor FullLoad ''A'' [''pm25''] (presetRange P7d) ''heure'']"
    and store: "historicalData (state ?c) = [''pm25'' \<mapsto> seriesA]"
    and un: "unhandled ?c = []"
    by (simp_all add: trace_defs panel_defs example_defs)
  have h1: "0 < length (inFlight ?c)" and h2: "fr_kind (inFlight ?c ! 0) = FullLoad"
    and h3: "fetchAll rejection (fr_pollutants (inFlight ?c ! 0)) Map.empty
               = Inl (JsError ''HTTP 500 from api.aircarto.fr'')"
    by (simp_all add: inflight requestFor_def rejection_def)
  show ?thesis
    using C5_rejection [OF h1 h2 h3] store un by simp
qed

section \<open>The controls after each operation\<close>

lemma adjusted_fits:
  "isTimeStepValidForRange mh (fst (adjustTimeRangeIfNeeded mh now tr ts)) ts"
  by (auto simp: adjustTimeRangeIfNeeded_def isTimeStepValidForRange_def currentDays_def
      customRange_def Let_def split: option.splits RangeType.splits)

lemma day_preset_fits: "isTimeStepValidForRange mh (presetRange P24h) ts"
  by (auto simp: isTimeStepValidForRange_def currentDays_def presetRange_def split: option.splits)

lemma completeLoad_controls [simp]:
  "chartControls (state (completeLoad c r)) = chartControls (state c)"
  by (cases r) simp_all

lemma loadHistoricalData_controls [simp]:
  "chartControls (state (loadHistoricalData c st ps tr ts)) = chartControls (state c)"
  by (simp add: loadHistoricalData_def Let_def)

lemma settleFetch_controls [simp]:
  "chartControls (state (settleFetch c i outcome)) = chartControls (state c)"
  by (simp add: settleFetch_def Let_def split: FetchKind.splits list.splits sum.splits)

lemma animationFrame_controls [simp]:
  "chartControls (state (animationFrame c)) = chartControls (state c)"
  by (simp add: animationFrame_def Let_def split: list.splits)

lemma rangeChange_controls:
  "chartControls (state (handleTimeRangeChange env c tr now)) =
     (chartControls (state c))
       \<lparr>timeRange := fst (adjustTimeRangeIfNeeded (getMaxHistoryDays env) now tr
                          (timeStep (chartControls (state c))))\<rparr>"
  by (simp add: handleTimeRangeChange_def Let_def split: prod.splits option.splits)

lemma stepChange_controls:
  "chartControls (state (handleTimeStepChange env c ts now)) =
     (if ts \<in> set (getSupportedTimeStepsForPollutants (pollutants env)
                     (selectedPollutants (chartControls (state c))))
      then (chartControls (state c))
             \<lparr>timeStep := ts,
              timeRange := fst (adjustTimeRangeIfNeeded (getMaxHistoryDays env) now
                                 (timeRange (chartControls (state c))) ts)\<rparr>
      else chartControls (state c))"
  by (simp add: handleTimeStepChange_def Let_def split: prod.splits option.splits)

lemma toggle_controls:
  "timeRange (chartControls (state (handlePollutantToggle c p))) = timeRange (chartControls (state c))
   \<and> timeStep (chartControls (state (handlePollutantToggle c p))) = timeStep (chartControls (state c))"
  by (simp add: handlePollutantToggle_def Let_def split: option.splits)

lemma props_controls:
  "chartControls (state (propsChanged env c opened station)) = chartControls (state c)
   \<or> (\<exists>sel. chartControls (state (propsChanged env c opened station)) =
         (chartControls (state c))
           \<lparr>selectedPollutants := sel,
            timeStep := getInitialTimeStepForPollutants (pollutants env) sel
                         (timeStep (chartControls (state c))),
            timeRange := presetRange P24h\<rparr>)"
  by (auto simp: propsChanged_def stationEffect_def Let_def split: option.splits Phase.splits)

lemma initial_step_supported:
  "getSupportedTimeStepsForPollutants tbl sel \<noteq> [] \<Longrightarrow>
     getInitialTimeStepForPollutants tbl sel fallback \<in> set (getSupportedTimeStepsForPollutants tbl sel)"
  by (simp add: getInitialTimeStepForPollutants_def Let_def)

lemma initial_step_fallback:
  "getSupportedTimeStepsForPollutants tbl sel = [] \<Longrightarrow>
     getInitialTimeStepForPollutants tbl sel fallback = fallback"
  by (simp add: getInitialTimeStepForPollutants_def Let_def)

lemma props_keep_step:
  assumes "getSupportedTimeStepsForPollutants (pollutants env)
             (selectedPollutants (chartControls (state (propsChanged env c opened station)))) = []"
  shows "timeStep (chartControls (state (propsChanged env c opened station)))
           = timeStep (chartControls (state c))"
  using props_controls [of env c opened station] assms
  by (auto simp: initial_step_fallback)

lemma toggle_selection:
  "selectedPollutants (chartControls (state (handlePollutantToggle c p))) =
     (if p \<in> set (selectedPollutants (chartControls (state c)))
      then filter (\<lambda>q. q \<noteq> p) (selectedPollutants (chartControls (state c)))
      else selectedPollutants (chartControls (state c)) @ [p])"
  by (simp add: handlePollutantToggle_def Let_def split: option.splits)

lemma supported_member:
  "ts \<in> set (getSupportedTimeStepsForPollutants tbl codes) \<longleftrightarrow>
     ts \<in> set MODULEAIR_TIMESTEP_OPTIONS \<and> (\<forall>c \<in> set codes. allowedBy tbl c ts)"
  by (simp add: supported_filter)

lemma toggle_supported:
  assumes "stepSupported env c"
    and "p \<notin> set (selectedPollutants (chartControls (state c))) \<Longrightarrow>
           allowedBy (pollutants env) p (timeStep (chartControls (state c)))"
  shows "stepSupported env (handlePollutantToggle c p)"
  using assms
  by (auto simp: stepSupported_def supported_member toggle_selection toggle_controls)

lemma range_dispatch:
  assumes "rangeFitsStep env c"
  shows "rangeFitsStep env (dispatch env c e)"
proof (cases e)
  case (PropsChanged opened station)
  then show ?thesis
    using props_controls [of env c opened station] assms
    by (auto simp: rangeFitsStep_def day_preset_fits)
next
  case (TimeRangeChange tr now)
  then show ?thesis
    by (simp add: rangeFitsStep_def rangeChange_controls adjusted_fits)
next
  case (TimeStepChange ts now)
  then show ?thesis
    using assms by (simp add: rangeFitsStep_def stepChange_controls adjusted_fits)
next
  case (PollutantToggle p)
  then show ?thesis using assms by (simp add: rangeFitsStep_def toggle_controls)
qed (use assms in \<open>simp_all add: rangeFitsStep_def\<close>)

lemma range_preserved: "rangeFitsStep env c \<Longrightarrow> rangeFitsStep env (step env c e)"
  by (simp add: step_def range_dispatch)

lemma range_initial: "rangeFitsStep env (initialPanel env)"
  by (simp add: rangeFitsStep_def initialPanel_def initialState_def day_preset_fits)

lemma range_run:
  "rangeFitsStep env c \<Longrightarrow> rangeFitsStep env (run env c events)"
  unfolding run_def
  by (induction events arbitrary: c) (simp_all add: range_preserved)

lemma step_dispatch:
  assumes "stepSupported env c"
    and "\<forall>p. e = PollutantToggle p \<and> p \<notin> set (selectedPollutants (chartControls (state c)))
           \<longrightarrow> allowedBy (pollutants env) p (timeStep (chartControls (state c)))"
    and "getSupportedTimeStepsForPollutants (pollutants env)
           (selectedPollutants (chartControls (state (dispatch env c e)))) \<noteq> []"
  shows "stepSupported env (dispatch env c e)"
proof (cases e)
  case (PropsChanged opened station)
  then show ?thesis
    using props_controls [of env c opened station] assms(1,3)
    by (auto simp: stepSupported_def initial_step_supported)
next
  case (TimeRangeChange tr now)
  then show ?thesis
    using assms(1) by (simp add: stepSupported_def rangeChange_controls)
next
  case (TimeStepChange ts now)
  then show ?thesis
    using assms(1) by (simp add: stepSupported_def stepChange_controls)
next
  case (PollutantToggle p)
  then show ?thesis using assms(1,2) by (simp add: toggle_supported)
qed (use assms(1) in \<open>simp_all add: stepSupported_def\<close>)

lemma step_preserved:
  assumes "stepSupported env c"
    and "\<forall>p. e = PollutantToggle p \<and> p \<notin> set (selectedPollutants (chartControls (state c)))
           \<longrightarrow> allowedBy (pollutants env) p (timeStep (chartControls (state c)))"
    and "getSupportedTimeStepsForPollutants (pollutants env)
           (selectedPollutants (chartControls (state (step env c e)))) \<noteq> []"
  shows "stepSupported env (step env c e)"
  using assms step_dispatch [of env c e] by (simp add: step_def split: if_splits)

text \<open>
  Claim C2, as stated, fails. With PM2.5 selected at the hourly step, toggling CO2 on
  leaves the hourly step active, and the only step supported by PM2.5 and CO2 together is
  the instantaneous one. And with a table in which PM2.5 declares a step that is not
  among the enumerated ones, the selection of a station supports no step and the hourly
  step of the initial state is kept.
\<close>

theorem C2_counterexample:
  "controlsVisible (run exEnv (initialPanel exEnv) readyTrace)
   \<and> stepSupported exEnv (run exEnv (initialPanel exEnv) readyTrace)
   \<and> rangeFitsStep exEnv (run exEnv (initialPanel exEnv) readyTrace)
   \<and> timeStep (chartControls (state (run exEnv (initialPanel exEnv) mismatchTrace))) = ''heure''
   \<and> getSupportedTimeStepsForPollutants exTable
        (selectedPollutants (chartControls (state (run exEnv (initialPanel exEnv) mismatchTrace))))
      = [''instantane'']
   \<and> \<not> stepSupported exEnv (run exEnv (initialPanel exEnv) mismatchTrace)
   \<and> selectedPollutants (chartControls (state (run narrowEnv (initialPanel narrowEnv) selectedA)))
      = [''pm25'']
   \<and> getSupportedTimeStepsForPollutants narrowTable [''pm25''] = []
   \<and> timeStep (chartControls (state (run narrowEnv (initialPanel narrowEnv) selectedA))) = ''heure''
   \<and> \<not> stepSupported narrowEnv (run narrowEnv (initialPanel narrowEnv) selectedA)"
  by (simp add: trace_defs panel_defs example_defs stepSupported_def rangeFitsStep_def
      isTimeStepValidForRange_def currentDays_def)

text \<open>
  Claim C2, amended: every operation of the panel preserves that the active range fits
  the maximum history of the active step when that maximum is bounded, and this holds in
  every state reached from the initial panel. An operation preserves that the active step
  is supported by the current selection whenever the supported list of the selection
  after the operation is not empty and the operation is not the toggling-on of a
  pollutant that does not allow the active step: so do station selection, time-range
  change, time-step change, toggling a pollutant off and toggling on a pollutant that
  allows the active step. When the selection made by a station selection supports no
  step, the active step stays as it was.
\<close>

theorem C2_controls_invariant:
  "(rangeFitsStep env c \<longrightarrow> rangeFitsStep env (step env c e))
   \<and> rangeFitsStep env (run env (initialPanel env) events)
   \<and> (stepSupported env c
       \<and> (\<forall>p. e = PollutantToggle p \<and> p \<notin> set (selectedPollutants (chartControls (state c)))
             \<longrightarrow> allowedBy (pollutants env) p (timeStep (chartControls (state c))))
       \<and> getSupportedTimeStepsForPollutants (pollutants env)
            (selectedPollutants (chartControls (state (step env c e)))) \<noteq> []
      \<longrightarrow> stepSupported env (step env c e))
   \<and> (getSupportedTimeStepsForPollutants (pollutants env)
         (selectedPollutants (chartControls (state (propsChanged env c opened station)))) = []
      \<longrightarrow> timeStep (chartControls (state (propsChanged env c opened station)))
            = timeStep (chartControls (state c)))"
  using range_preserved [of env c e] range_run [OF range_initial, of env events]
    step_preserved [of env c e] props_keep_step [of env c opened station]
  by blast

text \<open>
  Claim C2, amended: at the change from the hourly step to the instantaneous one with
  the seven-day preset active, where the range becomes a custom range of one day; at
  PM10 toggled on at the hourly step, which PM10 allows, and toggled off again; and at
  the selection of a station with the table in which PM2.5 supports no enumerated step.
\<close>

theorem C2_controls_invariant_witness:
  "rangeFitsStep exEnv
     (step exEnv (run exEnv (initialPanel exEnv) weekLoaded) (TimeStepChange ''instantane'' 1714557600000))
   \<and> stepSupported exEnv
     (step exEnv (run exEnv (initialPanel exEnv) weekLoaded) (TimeStepChange ''instantane'' 1714557600000))
   \<and> timeRange (chartControls (state (run exEnv (initialPanel exEnv) weekLoaded))) = presetRange P7d
   \<and> chartControls (state
       (step exEnv (run exEnv (initialPanel exEnv) weekLoaded) (TimeStepChange ''instantane'' 1714557600000)))
      = \<lparr>selectedPollutants = [''pm25''], timeRange = customRange 19843 19844,
         timeStep = ''instantane''\<rparr>
   \<and> stepSupported exEnv
       (step exEnv (run exEnv (initialPanel exEnv) readyTrace) (PollutantToggle ''pm10''))
   \<and> stepSupported exEnv
       (step exEnv (run exEnv (initialPanel exEnv) toggledOn) (PollutantToggle ''pm10''))
   \<and> timeStep (chartControls (state (propsChanged narrowEnv (initialPanel narrowEnv) True (Some stationA))))
      = ''heure''"
proof -
  let ?c = "run exEnv (initialPanel exEnv) weekLoaded"
  let ?e = "TimeStepChange ''instantane'' 1714557600000"
  let ?r = "run exEnv (initialPanel exEnv) readyTrace"
  let ?t = "run exEnv (initialPanel exEnv) toggledOn"
  let ?n = "propsChanged narrowEnv (initialPanel narrowEnv) True (Some stationA)"
  have live: "phase ?c = Live" "phase ?r = Live" "phase ?t = Live"
    by (simp_all add: trace_defs panel_defs example_defs)
  have cc: "chartControls (state ?c)
      = \<lparr>selectedPollutants = [''pm25''], timeRange = presetRange P7d, timeStep = ''heure''\<rparr>"
    by (simp add: trace_defs panel_defs example_defs)
  have rc: "chartControls (state ?r)
      = \<lparr>selectedPollutants = [''pm25''], timeRange = presetRange P24h, timeStep = ''heure''\<rparr>"
    by (simp add: trace_defs panel_defs example_defs)
  have tc: "chartControls (state ?t)
      = \<lparr>selectedPollutants = [''pm25'', ''pm10''], timeRange = presetRange P24h, timeStep = ''heure''\<rparr>"
    by (simp add: trace_defs panel_defs example_defs)
  have cc': "chartControls (state (step exEnv ?c ?e))
      = \<lparr>selectedPollutants = [''pm25''], timeRange = customRange 19843 19844,
         timeStep = ''instantane''\<rparr>"
    by (simp add: step_def live stepChange_controls cc supported_defs exMaxHistory_def
        adjustTimeRangeIfNeeded_def presetRange_def isoDate_def msPerDay_def)
  have rsel: "selectedPollutants (chartControls (state (step exEnv ?r (PollutantToggle ''pm10''))))
      = [''pm25'', ''pm10'']"
    by (simp add: step_def live toggle_selection rc)
  have tsel: "selectedPollutants (chartControls (state (step exEnv ?t (PollutantToggle ''pm10''))))
      = [''pm25'']"
    by (simp add: step_def live toggle_selection tc)
  have nsel: "selectedPollutants (chartControls (state ?n)) = [''pm25'']"
    by (simp add: panel_defs example_defs)
  have h1: "rangeFitsStep exEnv ?c"
    by (simp add: rangeFitsStep_def cc isTimeStepValidForRange_def currentDays_def presetRange_def
        exMaxHistory_def)
  have h2: "stepSupported exEnv ?c" "stepSupported exEnv ?r" "stepSupported exEnv ?t"
    by (simp_all add: stepSupported_def cc rc tc supported_defs)
  have h3: "\<forall>p. ?e = PollutantToggle p \<and> p \<notin> set (selectedPollutants (chartControls (state ?c)))
           \<longrightarrow> allowedBy (pollutants exEnv) p (timeStep (chartControls (state ?c)))"
    by simp
  have h4: "getSupportedTimeStepsForPollutants (pollutants exEnv)
              (selectedPollutants (chartControls (state (step exEnv ?c ?e)))) \<noteq> []"
    unfolding cc' by (simp add: supported_defs)
  have h5: "allowedBy (pollutants exEnv) ''pm10'' (timeStep (chartControls (state ?r)))"
    by (simp add: rc allowedBy_def declaredSteps_def exTable_def)
  have h6: "getSupportedTimeStepsForPollutants (pollutants exEnv)
              (selectedPollutants (chartControls (state (step exEnv ?r (PollutantToggle ''pm10''))))) \<noteq> []"
      "getSupportedTimeStepsForPollutants (pollutants exEnv)
              (selectedPollutants (chartControls (state (step exEnv ?t (PollutantToggle ''pm10''))))) \<noteq> []"
    unfolding rsel tsel by (simp_all add: supported_defs)
  have h7: "''pm10'' \<in> set (selectedPollutants (chartControls (state ?t)))"
    by (simp add: tc)
  have h8: "getSupportedTimeStepsForPollutants (pollutants narrowEnv)
              (selectedPollutants (chartControls (state ?n))) = []"
    unfolding nsel
    by (simp add: narrowEnv_def narrowTable_def getSupportedTimeStepsForPollutants_def
        narrowSteps_def MODULEAIR_TIMESTEP_OPTIONS_def)
  have n0: "timeStep (chartControls (state (initialPanel narrowEnv))) = ''heure''"
    by (simp add: panel_defs example_defs)
  have a: "rangeFitsStep exEnv (step exEnv ?c ?e) \<and> stepSupported exEnv (step exEnv ?c ?e)"
    using C2_controls_invariant [where env = exEnv and c = ?c and e = ?e] h1 h2(1) h3 h4
    by blast
  have b: "stepSupported exEnv (step exEnv ?r (PollutantToggle ''pm10''))"
    using C2_controls_invariant [where env = exEnv and c = ?r and e = "PollutantToggle ''pm10''"]
      h2(2) h5 h6(1)
    by blast
  have c: "stepSupported exEnv (step exEnv ?t (PollutantToggle ''pm10''))"
    using C2_controls_invariant [where env = exEnv and c = ?t and e = "PollutantToggle ''pm10''"]
      h2(3) h7 h6(2)
    by blast
  have d: "timeStep (chartControls (state ?n)) = ''heure''"
    using C2_controls_invariant [where env = narrowEnv and c = "initialPanel narrowEnv"
        and opened = True and station = "Some stationA"] h8 n0
    by simp
  from a b c d cc cc' show ?thesis by simp
qed

section \<open>The gate of the initial load\<close>

lemma completeLoad_gate [simp]:
  "inFlight (completeLoad c r) = inFlight c" "\<not> loadingRef (completeLoad c r)"
  by (cases r; simp)+

lemma open_keeps_gate:
  "inFlight (propsChanged env c True station) = inFlight c"
  "loadingRef (propsChanged env c True station) = loadingRef c"
  by (simp_all add: propsChanged_def stationEffect_def Let_def split: option.splits Phase.splits)

lemma gate_props: "opened \<Longrightarrow> gateHolds c \<Longrightarrow> gateHolds (propsChanged env c opened station)"
  by (simp add: gateHolds_def open_keeps_gate)

lemma gate_frame:
  assumes "gateHolds c"
  shows "gateHolds (animationFrame c)"
proof (cases "frames c")
  case Nil
  with assms show ?thesis by (simp add: animationFrame_def)
next
  case (Cons f fs)
  show ?thesis
  proof (cases "\<not> loadingRef c \<and> initialLoadDoneRef c \<noteq> Some (fc_loadKey f)")
    case False
    with Cons assms show ?thesis
      by (auto simp: animationFrame_def gateHolds_def Let_def)
  next
    case True
    with assms have "inFlight c = []" by (auto simp: gateHolds_def)
    with True Cons show ?thesis
      by (simp add: animationFrame_def gateHolds_def loadHistoricalData_def Let_def)
  qed
qed

lemma gate_settle:
  assumes "gateHolds c"
  shows "gateHolds (settleFetch c i outcome)"
proof (cases "i < length (inFlight c)")
  case False
  with assms show ?thesis by (simp add: settleFetch_def)
next
  case True
  with assms obtain r where r: "inFlight c = [r]" "fr_kind r = FullLoad" and i: "i = 0"
    by (cases "inFlight c") (auto simp: gateHolds_def)
  then show ?thesis
    by (simp add: settleFetch_def gateHolds_def Let_def)
qed

lemma gate_step: "selectionEvent e \<Longrightarrow> gateHolds c \<Longrightarrow> gateHolds (step env c e)"
  by (cases e) (simp_all add: step_def gate_props gate_frame gate_settle)

lemma gate_run:
  "list_all selectionEvent events \<Longrightarrow> gateHolds c \<Longrightarrow> gateHolds (run env c events)"
  unfolding run_def
  by (induction events arbitrary: c) (simp_all add: gate_step)

lemma gate_initial: "gateHolds (initialPanel env)"
  by (simp add: gateHolds_def initialPanel_def)

lemma gate_at_most_one: "gateHolds c \<Longrightarrow> length (inFlight c) \<le> 1"
  by (simp add: gateHolds_def)

lemma rangeChange_dispatches:
  assumes "p_selectedStation c = Some st" and "selectedPollutants (chartControls (state c)) \<noteq> []"
  shows "inFlight (handleTimeRangeChange env c tr now) =
           inFlight c @
             [requestFor FullLoad (station_id st) (selectedPollutants (chartControls (state c)))
                (fst (adjustTimeRangeIfNeeded (getMaxHistoryDays env) now tr
                        (timeStep (chartControls (state c)))))
                (timeStep (chartControls (state c)))]"
  using assms
  by (simp add: handleTimeRangeChange_def loadHistoricalData_def requestFor_def Let_def
      split: prod.splits)

lemma stepChange_dispatches:
  assumes "p_selectedStation c = Some st" and "selectedPollutants (chartControls (state c)) \<noteq> []"
    and "ts \<in> set (getSupportedTimeStepsForPollutants (pollutants env)
                     (selectedPollutants (chartControls (state c))))"
  shows "inFlight (handleTimeStepChange env c ts now) =
           inFlight c @
             [requestFor FullLoad (station_id st) (selectedPollutants (chartControls (state c)))
                (fst (adjustTimeRangeIfNeeded (getMaxHistoryDays env) now
                        (timeRange (chartControls (state c))) ts))
                ts]"
  using assms
  by (simp add: handleTimeStepChange_def loadHistoricalData_def requestFor_def Let_def
      split: prod.splits)

lemma stepChange_refused:
  assumes "ts \<notin> set (getSupportedTimeStepsForPollutants (pollutants env)
                     (selectedPollutants (chartControls (state c))))"
  shows "handleTimeStepChange env c ts now = c"
  using assms by (simp add: handleTimeStepChange_def Let_def)

lemma frame_dispatches:
  assumes "frames c = f # fs" and "\<not> loadingRef c" and "initialLoadDoneRef c \<noteq> Some (fc_loadKey f)"
    and "fc_pollutants f \<noteq> []"
  shows "inFlight (animationFrame c) =
           inFlight c @
             [requestFor FullLoad (station_id (fc_station f)) (fc_pollutants f) (fc_timeRange f)
                (fc_timeStep f)]"
  using assms
  by (simp add: animationFrame_def loadHistoricalData_def requestFor_def Let_def)

lemma frame_refused:
  assumes "frames c = f # fs" and "loadingRef c \<or> initialLoadDoneRef c = Some (fc_loadKey f)"
  shows "inFlight (animationFrame c) = inFlight c"
  using assms by (auto simp: animationFrame_def Let_def)

text \<open>
  Claim C3, as stated, fails. Station A is selected and its load dispatched; station B is
  selected while that load is in flight, which shows the controls again and schedules no
  load for B. The user picks the seven-day range: a load for B is dispatched. The load of
  A settles, which shows the controls again. The user picks the 24-hour range, and that
  load settles while the seven-day load is still in flight. The user picks the seven-day
  range again, and a second load with the key of the one in flight is dispatched.
\<close>

theorem C3_counterexample:
  "controlsVisible (run exEnv (initialPanel exEnv) staleBefore)
   \<and> inFlight (run exEnv (initialPanel exEnv) weekClicked)
      = [requestFor FullLoad ''A'' [''pm25''] (presetRange P24h) ''heure'',
         requestFor FullLoad ''B'' [''pm25''] (presetRange P7d) ''heure'']
   \<and> controlsVisible (run exEnv (initialPanel exEnv) earlierSettled)
   \<and> inFlight (run exEnv (initialPanel exEnv) dayClicked)
      = [requestFor FullLoad ''B'' [''pm25''] (presetRange P7d) ''heure'',
         requestFor FullLoad ''B'' [''pm25''] (presetRange P24h) ''heure'']
   \<and> controlsVisible (run exEnv (initialPanel exEnv) daySettled)
   \<and> inFlight (run exEnv (initialPanel exEnv) daySettled)
      = [requestFor FullLoad ''B'' [''pm25''] (presetRange P7d) ''heure'']
   \<and> inFlight (run exEnv (initialPanel exEnv) weekAgain)
      = [requestFor FullLoad ''B'' [''pm25''] (presetRange P7d) ''heure'',
         requestFor FullLoad ''B'' [''pm25''] (presetRange P7d) ''heure'']"
  by (simp add: trace_defs panel_defs example_defs)

text \<open>
  Claim C3, amended: only the initial load of a station selection is gated. Its
  animation-frame callback dispatches nothing while \<open>loadingRef\<close> is set or the key is
  the last one admitted, and dispatches the load otherwise; so in a session where the
  panel stays open and only stations are selected, at most one fetch is in flight at any
  time. A change of the time range dispatches its load without any test, with a station
  and a pollutant selected; a change of the time step does so when the new step is in the
  supported list of the selection, and does nothing otherwise. So a key equal to the last
  admitted one is admitted again after the settlement.
\<close>

theorem C3_gate:
  "(list_all selectionEvent events \<longrightarrow>
      length (inFlight (run env (initialPanel env) events)) \<le> 1)
   \<and> (frames c = f # fs \<and> (loadingRef c \<or> initialLoadDoneRef c = Some (fc_loadKey f)) \<longrightarrow>
        inFlight (animationFrame c) = inFlight c)
   \<and> (frames c = f # fs \<and> \<not> loadingRef c \<and> initialLoadDoneRef c \<noteq> Some (fc_loadKey f)
        \<and> fc_pollutants f \<noteq> [] \<longrightarrow>
        inFlight (animationFrame c) =
          inFlight c @
            [requestFor FullLoad (station_id (fc_station f)) (fc_pollutants f) (fc_timeRange f)
               (fc_timeStep f)])
   \<and> (p_selectedStation c = Some st \<and> selectedPollutants (chartControls (state c)) \<noteq> [] \<longrightarrow>
        inFlight (handleTimeRangeChange env c tr now) =
          inFlight c @
            [requestFor FullLoad (station_id st) (selectedPollutants (chartControls (state c)))
               (fst (adjustTimeRangeIfNeeded (getMaxHistoryDays env) now tr
                       (timeStep (chartControls (state c)))))
               (timeStep (chartControls (state c)))])
   \<and> (p_selectedStation c = Some st \<and> selectedPollutants (chartControls (state c)) \<noteq> []
        \<and> ts \<in> set (getSupportedTimeStepsForPollutants (pollutants env)
                        (selectedPollutants (chartControls (state c)))) \<longrightarrow>
        inFlight (handleTimeStepChange env c ts now) =
          inFlight c @
            [requestFor FullLoad (station_id st) (selectedPollutants (chartControls (state c)))
               (fst (adjustTimeRangeIfNeeded (getMaxHistoryDays env) now
                       (timeRange (chartControls (state c))) ts))
               ts])
   \<and> (ts \<notin> set (getSupportedTimeStepsForPollutants (pollutants env)
                    (selectedPollutants (chartControls (state c)))) \<longrightarrow>
        handleTimeStepChange env c ts now = c)"
proof -
  have a: "list_all selectionEvent events \<longrightarrow>
      length (inFlight (run env (initialPanel env) events)) \<le> 1"
    using gate_run [OF _ gate_initial] gate_at_most_one by blast
  show ?thesis
    using a frame_refused [of c f fs] frame_dispatches [of c f fs]
      rangeChange_dispatches [of c st env tr now] stepChange_dispatches [of c st ts env now]
      stepChange_refused [of ts env c now]
    by blast
qed

text \<open>
  Claim C3, amended: one fetch in flight after two selections; a callback refused
  behind a load in flight and one admitted; after the settlement of the initial load a
  change to the same range is admitted with the key of the initial load, a change to the
  daily step is admitted, and a change to a step that is not supported dispatches
  nothing.
\<close>

theorem C3_gate_witness:
  "length (inFlight (run exEnv (initialPanel exEnv) staleBefore)) \<le> 1
   \<and> inFlight (animationFrame (run exEnv (initialPanel exEnv) twoSelections))
      = [requestFor FullLoad ''A'' [''pm25''] (presetRange P24h) ''heure'']
   \<and> inFlight (animationFrame (run exEnv (initialPanel exEnv) selectedA))
      = [requestFor FullLoad ''A'' [''pm25''] (presetRange P24h) ''heure'']
   \<and> inFlight (run exEnv (initialPanel exEnv) readyTrace) = []
   \<and> inFlight (handleTimeRangeChange exEnv (run exEnv (initialPanel exEnv) readyTrace)
                 (presetRange P24h) 1714557600000)
      = [requestFor FullLoad ''A'' [''pm25''] (presetRange P24h) ''heure'']
   \<and> inFlight (handleTimeStepChange exEnv (run exEnv (initialPanel exEnv) readyTrace)
                 ''jour'' 1714557600000)
      = [requestFor FullLoad ''A'' [''pm25''] (presetRange P24h) ''jour'']
   \<and> inFlight (handleTimeStepChange exEnv (run exEnv (initialPanel exEnv) readyTrace)
                 ''deuxMin'' 1714557600000) = []"
proof -
  let ?two = "run exEnv (initialPanel exEnv) twoSelections"
  let ?one = "run exEnv (initialPanel exEnv) selectedA"
  let ?ready = "run exEnv (initialPanel exEnv) readyTrace"
  have sel: "list_all selectionEvent staleBefore"
    by (simp add: staleBefore_def)
  let ?fA = "\<lparr>fc_station = stationA, fc_pollutants = [''pm25''],
                 fc_timeRange = presetRange P24h, fc_timeStep = ''heure'',
                 fc_loadKey = ''A-pm25-24h-heure''\<rparr>"
  let ?fB = "\<lparr>fc_station = stationB, fc_pollutants = [''pm25''],
                 fc_timeRange = presetRange P24h, fc_timeStep = ''heure'',
                 fc_loadKey = ''B-pm25-24h-heure''\<rparr>"
  have two: "frames ?two = [?fB]"
      "loadingRef ?two"
      "inFlight ?two = [requestFor FullLoad ''A'' [''pm25''] (presetRange P24h) ''heure'']"
    by (simp_all add: trace_defs panel_defs example_defs)
  have one: "frames ?one = [?fA]"
      "\<not> loadingRef ?one" "initialLoadDoneRef ?one = None" "inFlight ?one = []"
    by (simp_all add: trace_defs panel_defs example_defs)
  have ready: "p_selectedStation ?ready = Some stationA"
      "chartControls (state ?ready)
         = \<lparr>selectedPollutants = [''pm25''], timeRange = presetRange P24h, timeStep = ''heure''\<rparr>"
      "inFlight ?ready = []"
    by (simp_all add: trace_defs panel_defs example_defs)
  have sup: "''jour'' \<in> set (getSupportedTimeStepsForPollutants (pollutants exEnv) [''pm25''])"
      "''deuxMin'' \<notin> set (getSupportedTimeStepsForPollutants (pollutants exEnv) [''pm25''])"
    by (simp_all add: supported_defs)
  have adj: "adjustTimeRangeIfNeeded exMaxHistory 1714557600000 (presetRange P24h) ''heure''
               = (presetRange P24h, False)"
      "adjustTimeRangeIfNeeded exMaxHistory 1714557600000 (presetRange P24h) ''jour''
               = (presetRange P24h, False)"
    by (simp_all add: adjustTimeRangeIfNeeded_def exMaxHistory_def presetRange_def)
  show ?thesis
    using C3_gate [where events = staleBefore and env = exEnv and c = ?two and f = ?fB and fs = "[]"]
      C3_gate [where events = "[]" and env = exEnv and c = ?one and f = ?fA and fs = "[]"]
      C3_gate [where events = "[]" and env = exEnv and c = ?ready and st = stationA
                 and tr = "presetRange P24h" and now = 1714557600000 and ts = "''jour''"]
      C3_gate [where events = "[]" and env = exEnv and c = ?ready
                 and now = 1714557600000 and ts = "''deuxMin''"]
      sel two one ready sup adj
    by (simp add: stationA_def)
qed

section \<open>Toggling a pollutant\<close>

text \<open>
  Claim C6 at a failing session: with station A loaded, PM10 is toggled on, which
  dispatches its incremental fetch, and toggled off before that fetch settles. The
  handler tests the store only, not the direction of the toggle, and dispatches a second
  fetch for the pollutant that has just been deselected.
\<close>

theorem C6_toggle_off_fetches:
  "controlsVisible (run exEnv (initialPanel exEnv) toggledOn)
   \<and> selectedPollutants (chartControls (state (run exEnv (initialPanel exEnv) toggledOn))) = [''pm25'', ''pm10'']
   \<and> inFlight (run exEnv (initialPanel exEnv) toggledOn)
      = [requestFor Incremental ''A'' [''pm10''] (presetRange P24h) ''heure'']
   \<and> selectedPollutants (chartControls (state (run exEnv (initialPanel exEnv) toggledOff))) = [''pm25'']
   \<and> inFlight (run exEnv (initialPanel exEnv) toggledOff)
      = [requestFor Incremental ''A'' [''pm10''] (presetRange P24h) ''heure'',
         requestFor Incremental ''A'' [''pm10''] (presetRange P24h) ''heure'']"
  by (simp add: trace_defs panel_defs example_defs)

end
